theory Spec2Isabelle
  imports Main "HOL-Library.Word"
begin

section \<open>The APN gateway connection of lib/connection.js\<close>

text \<open>
  A shallow embedding of \<^verbatim>\<open>lib/connection.js\<close>: the fields of a \<^verbatim>\<open>Connection\<close>
  object form a record, every method and every anonymous callback is a function from the
  state before to the state after, and the effects on the outside world (calls of the
  configured error callback, frames handed to \<^verbatim>\<open>socket.write\<close>) are kept as traces in
  that record. A JavaScript exception is a value: functions that can throw return how
  they completed together with the state they left behind.
\<close>

subsection \<open>Values\<close>

type_synonym byte = "8 word"

datatype js_error = TypeError | AssertionError

datatype completion = Normal | Throw js_error

text \<open>
  Modelled from the spec: the Notification and Device classes live outside
  \<^verbatim>\<open>lib/connection.js\<close>. Section 3 of the specification gives the fields the connection
  reads: the device token (a byte sequence), the expiry (an unsigned 32-bit timestamp)
  and the identifier \<^verbatim>\<open>_uid\<close>, which is absent until the first transmission.
  The connection reads the token as \<^verbatim>\<open>notification.device.token\<close>, so a notification
  may lack the device object altogether (\<open>device = None\<close>), and the token of a device
  may be \<^verbatim>\<open>undefined\<close>, \<^verbatim>\<open>null\<close> or the byte sequence of the specification.
  \<open>content\<close> stands for everything else the application stored in the object.
  Notifications are values here: an entry of the cache or of the outbound buffer is the
  notification as it was when it was appended.
\<close>

datatype js_token = Token_undefined | Token_null | Token_buffer "byte list"

record device =
  token :: js_token

record notification =
  device :: "device option"
  expiry :: "32 word"
  uid :: "nat option"
  content :: "byte list"

text \<open>
  What the module takes from its surroundings. The table \<^verbatim>\<open>Errors\<close> of
  \<^verbatim>\<open>lib/errors.js\<close> is not among the sources, so the three entries that are used are
  parameters. \<open>stringify n\<close> is the byte sequence of \<^verbatim>\<open>JSON.stringify(notification)\<close> in
  the notification's encoding: its length is \<^verbatim>\<open>Buffer.byteLength(message, encoding)\<close> and
  it is what \<^verbatim>\<open>data.write(message, position, encoding)\<close> stores. \<open>uninitialised i\<close> is the
  byte found at index \<open>i\<close> of a freshly allocated \<^verbatim>\<open>Buffer\<close>, whose memory is not cleared.
\<close>

record env =
  Errors_none :: nat
  Errors_missingDeviceToken :: nat
  Errors_invalidPayloadSize :: nat
  stringify :: "notification \<Rightarrow> byte list"
  uninitialised :: "nat \<Rightarrow> byte"

subsection \<open>Buffer primitives\<close>

text \<open>
  The methods of Node's \<^verbatim>\<open>Buffer\<close> that the module calls (none is passed
  \<^verbatim>\<open>noAssert\<close>, so each checks the value and the offset and throws otherwise).
\<close>

definition new_Buffer :: "env \<Rightarrow> nat \<Rightarrow> byte list" where
  "new_Buffer e len = map (uninitialised e) [0..<len]"

definition writeUInt16BE :: "byte list \<Rightarrow> nat \<Rightarrow> nat \<Rightarrow> js_error + byte list" where
  "writeUInt16BE buffer v offset =
     (if v > 0xffff \<or> \<not> offset + 1 < length buffer then Inl AssertionError
      else Inr (buffer[offset := of_nat (v div 256 mod 256),
                       offset + 1 := of_nat (v mod 256)]))"

definition writeUInt32BE :: "byte list \<Rightarrow> nat \<Rightarrow> nat \<Rightarrow> js_error + byte list" where
  "writeUInt32BE buffer v offset =
     (if v > 0xffffffff \<or> \<not> offset + 3 < length buffer then Inl AssertionError
      else Inr (buffer[offset := of_nat (v div 16777216 mod 256),
                       offset + 1 := of_nat (v div 65536 mod 256),
                       offset + 2 := of_nat (v div 256 mod 256),
                       offset + 3 := of_nat (v mod 256)]))"

definition readUInt32BE :: "byte list \<Rightarrow> nat \<Rightarrow> js_error + nat" where
  "readUInt32BE buffer offset =
     (if \<not> offset + 3 < length buffer then Inl AssertionError
      else Inr (unat (buffer ! offset) * 16777216 + unat (buffer ! (offset + 1)) * 65536
                + unat (buffer ! (offset + 2)) * 256 + unat (buffer ! (offset + 3))))"

text \<open>
  \<^verbatim>\<open>source.copy(target, targetStart, 0)\<close> and \<^verbatim>\<open>buffer.write(string, offset, encoding)\<close>
  store as many bytes as fit behind the offset and return how many they stored; both
  refuse an offset outside the target when there is something to store.
\<close>

definition Buffer_copy :: "byte list \<Rightarrow> byte list \<Rightarrow> nat \<Rightarrow> js_error + (nat \<times> byte list)" where
  "Buffer_copy source target targetStart =
     (if source = [] then Inr (0, target)
      else if targetStart \<ge> length target then Inl AssertionError
      else let k = min (length source) (length target - targetStart)
           in Inr (k, take targetStart target @ take k source @ drop (targetStart + k) target))"

definition Buffer_write :: "byte list \<Rightarrow> byte list \<Rightarrow> nat \<Rightarrow> js_error + (nat \<times> byte list)" where
  "Buffer_write buffer bytes offset =
     (if bytes = [] then Inr (0, buffer)
      else if offset \<ge> length buffer then Inl AssertionError
      else let k = min (length bytes) (length buffer - offset)
           in Inr (k, take offset buffer @ take k bytes @ drop (offset + k) buffer))"

subsection \<open>The state of a connection\<close>

text \<open>
  The TLS stream: \<open>bufferSize\<close> is \<^verbatim>\<open>socket.socket.bufferSize\<close>; \<open>written\<close> lists the
  frames passed to \<^verbatim>\<open>socket.write\<close>, oldest first; \<open>listening\<close> says that the handlers
  registered in \<^verbatim>\<open>connect\<close> are still attached; \<open>destroySoon_called\<close> that
  \<^verbatim>\<open>destroySoon\<close> was called. The runtime, not the module, sets \<open>bufferSize\<close>,
  \<open>writable\<close> and \<open>authorized\<close>.
\<close>

record tls_socket =
  bufferSize :: nat
  writable :: bool
  authorized :: bool
  written :: "byte list list"
  listening :: bool
  destroySoon_called :: bool

text \<open>
  The deferred of \<^verbatim>\<open>q.defer()\<close> kept in \<^verbatim>\<open>deferredConnection\<close>: the state of its promise
  and the continuations that \<^verbatim>\<open>sendNotification\<close> attached to it and that have not run
  yet, each named by the notification it closes over.
\<close>

datatype promise_state = Pending | Fulfilled | Rejected

record deferred =
  promise :: promise_state
  continuations :: "notification list"

datatype js_value = Undefined | Promise promise_state

text \<open>
  \<open>errorCallback\<close> records whether \<^verbatim>\<open>typeof options.errorCallback == 'function'\<close>;
  \<open>opt_connectionTimeout\<close> is \<^verbatim>\<open>options.connectionTimeout\<close>, which the defaults leave
  undefined; 0 stands for that, since the only use is the test
  \<^verbatim>\<open>options.connectionTimeout > 0\<close>.
\<close>

record options =
  enhanced :: bool
  errorCallback :: bool
  cacheLength :: int
  opt_connectionTimeout :: int

text \<open>
  \<open>connectionTimeout\<close> is the timer handle: \<open>None\<close> for \<^verbatim>\<open>null\<close>, \<open>Some True\<close> for a
  timer that is still armed, \<open>Some False\<close> for one that was cleared. \<open>callbackCalls\<close> is
  the trace of the calls \<^verbatim>\<open>options.errorCallback(errorCode, notification)\<close>, oldest
  first, with \<open>None\<close> for a \<^verbatim>\<open>null\<close> notification; the callback itself is code of the
  application and is taken not to call back into the connection before it returns.
  \<open>connectContinuations\<close> counts the
  continuations that \<^verbatim>\<open>connect\<close> attached to the promise of \<^verbatim>\<open>initialize\<close> and that
  have not run yet. The certificate and key material and \<^verbatim>\<open>deferredInitialize\<close> belong
  to the loading of the credentials and are left out.
\<close>

record connection =
  options :: options
  deferredConnection :: "deferred option"
  currentId :: nat
  cachedNotifications :: "notification list"
  notificationBuffer :: "notification list"
  socket :: "tls_socket option"
  connectionTimeout :: "bool option"
  callbackCalls :: "(nat \<times> notification option) list"
  connectContinuations :: nat

definition default_options :: options where
  "default_options =
     \<lparr>enhanced = True, errorCallback = False, cacheLength = 100, opt_connectionTimeout = 0\<rparr>"

definition Connection :: "options \<Rightarrow> connection" where
  "Connection opts =
     \<lparr>options = opts, deferredConnection = None, currentId = 0, cachedNotifications = [],
      notificationBuffer = [], socket = None, connectionTimeout = None, callbackCalls = [],
      connectContinuations = 0\<rparr>"

subsection \<open>The methods\<close>

text \<open>
  \<^verbatim>\<open>connect\<close> returns the promise of the connection attempt on record; when there is
  none it records a new one and attaches to \<^verbatim>\<open>initialize()\<close> the continuations that
  will open the stream (\<open>connect_then\<close>) or give up (\<open>connect_fail\<close>).
\<close>

definition connect :: "connection \<Rightarrow> js_value \<times> connection" where
  "connect c =
     (case deferredConnection c of
        Some d \<Rightarrow> (Promise (promise d), c)
      | None \<Rightarrow> (Promise Pending,
                 c\<lparr>deferredConnection := Some \<lparr>promise = Pending, continuations = []\<rparr>,
                   connectContinuations := connectContinuations c + 1\<rparr>))"

definition destroyConnection :: "connection \<Rightarrow> connection" where
  "destroyConnection c =
     (case socket c of
        Some s \<Rightarrow> c\<lparr>socket := Some (s\<lparr>destroySoon_called := True\<rparr>)\<rparr>
      | None \<Rightarrow> c)"

definition bufferNotification :: "notification \<Rightarrow> connection \<Rightarrow> connection" where
  "bufferNotification n c = c\<lparr>notificationBuffer := notificationBuffer c @ [n]\<rparr>"

definition cacheNotification :: "notification \<Rightarrow> connection \<Rightarrow> connection" where
  "cacheNotification n c =
     (let c1 = c\<lparr>cachedNotifications := cachedNotifications c @ [n]\<rparr>
      in if int (length (cachedNotifications c1)) > cacheLength (options c1)
         then c1\<lparr>cachedNotifications := tl (cachedNotifications c1)\<rparr>
         else c1)"

definition raiseError :: "nat \<Rightarrow> notification option \<Rightarrow> connection \<Rightarrow> connection" where
  "raiseError errorCode n c =
     (if errorCallback (options c)
      then c\<lparr>callbackCalls := callbackCalls c @ [(errorCode, n)]\<rparr>
      else c)"

text \<open>
  The first loop of \<^verbatim>\<open>handleTransmissionError\<close>: shift the cache until an entry carries
  the identifier. The result is the entry found, what is left of the cache, and the
  entries passed over (\<^verbatim>\<open>temporaryCache\<close>).
\<close>

fun scanCache ::
  "nat \<Rightarrow> notification list \<Rightarrow> notification list
     \<Rightarrow> notification option \<times> notification list \<times> notification list" where
  "scanCache identifier [] temporaryCache = (None, [], temporaryCache)"
| "scanCache identifier (n # cached) temporaryCache =
     (if uid n = Some identifier then (Some n, cached, temporaryCache)
      else scanCache identifier cached (temporaryCache @ [n]))"

text \<open>
  The last loop: \<^verbatim>\<open>count\<close> times, shift the cache and push the entry on the outbound
  buffer. \<^verbatim>\<open>count\<close> is the length of the cache, so the loop never shifts an empty one.
\<close>

fun requeue :: "nat \<Rightarrow> connection \<Rightarrow> connection" where
  "requeue 0 c = c"
| "requeue (Suc i) c =
     (case cachedNotifications c of
        [] \<Rightarrow> c
      | n # rest \<Rightarrow> requeue i (bufferNotification n (c\<lparr>cachedNotifications := rest\<rparr>)))"

definition handleTransmissionError ::
  "env \<Rightarrow> byte list \<Rightarrow> connection \<Rightarrow> completion \<times> connection" where
  "handleTransmissionError e data c =
     (case data of
        [] \<Rightarrow> (Normal, c)
      | command # _ \<Rightarrow>
          if command \<noteq> 8 then (Normal, c)
          else if \<not> enhanced (options c) then (Normal, c)
          else
            (case readUInt32BE data 2 of
               Inl err \<Rightarrow> (Throw err, c)
             | Inr identifier \<Rightarrow>
                 let errorCode = unat (data ! 1);
                     (found, remaining, temporaryCache) =
                        scanCache identifier (cachedNotifications c) [];
                     c1 = c\<lparr>cachedNotifications := remaining\<rparr>;
                     c2 = (case found of
                             Some n \<Rightarrow> raiseError errorCode (Some n) c1
                           | None \<Rightarrow>
                               raiseError (Errors_none e) None
                                 (c1\<lparr>cachedNotifications := temporaryCache\<rparr>));
                     c3 = requeue (length (cachedNotifications c2)) c2
                 in (Normal, destroyConnection c3)))"

text \<open>
  \<^verbatim>\<open>sendNotification\<close> asks \<^verbatim>\<open>connect\<close> for the connection promise, attaches its two
  continuations to it and falls off its end: it has no \<^verbatim>\<open>return\<close> statement, so its
  value is \<^verbatim>\<open>undefined\<close>.
\<close>

definition sendNotification :: "notification \<Rightarrow> connection \<Rightarrow> js_value \<times> connection" where
  "sendNotification notification c =
     (let (p, c1) = connect c
      in (Undefined,
          case deferredConnection c1 of
            Some d \<Rightarrow>
              c1\<lparr>deferredConnection := Some (d\<lparr>continuations := continuations d @ [notification]\<rparr>)\<rparr>
          | None \<Rightarrow> c1))"

text \<open>
  The continuation given to \<^verbatim>\<open>then\<close>, which runs once the connection promise is
  fulfilled. Its outcome: the notification went to the outbound buffer, it was refused
  with an error code, it was written as a frame (the notification now carries its
  identifier), or an exception left the continuation. Three reads can throw a
  \<^verbatim>\<open>TypeError\<close>: \<^verbatim>\<open>this.socket.socket\<close> when there is no stream,
  \<^verbatim>\<open>notification.device.token\<close> when the notification has no device (past the
  backpressure gate, before any check), and \<^verbatim>\<open>token.length\<close> in the size of the new
  buffer when the token is \<^verbatim>\<open>null\<close> (which is not \<^verbatim>\<open>undefined\<close>, so the identifier is
  already taken by then). \<open>Threw\<close> is an exception that left the continuation before
  line 304 gave the notification an identifier, \<open>Threw_numbered\<close> one that left it
  after.
\<close>

datatype send_result =
    Buffered
  | Refused nat
  | Sent notification "byte list"
  | Threw js_error
  | Threw_numbered js_error

text \<open>
  The start of the frame, up to the point where the two variants meet again: the buffer
  and the position reached. (In the enhanced variant the notification is cached at that
  very point, which \<open>sendNotification_then\<close> does.)
\<close>

definition frameStart ::
  "env \<Rightarrow> bool \<Rightarrow> nat \<Rightarrow> 32 word \<Rightarrow> nat \<Rightarrow> nat \<Rightarrow> js_error + (byte list \<times> nat)" where
  "frameStart e enh identifier expiry_time tokenLength messageLength =
     (let position = 0 in
      if enh then
        let data = (new_Buffer e (1 + 4 + 4 + 2 + tokenLength + 2 + messageLength))[position := 1];
            position = position + 1
        in (case writeUInt32BE data identifier position of
              Inl err \<Rightarrow> Inl err
            | Inr data \<Rightarrow>
                let position = position + 4
                in (case writeUInt32BE data (unat expiry_time) position of
                      Inl err \<Rightarrow> Inl err
                    | Inr data \<Rightarrow> Inr (data, position + 4)))
      else
        let data = (new_Buffer e (1 + 2 + tokenLength + 2 + messageLength))[position := 0]
        in Inr (data, position + 1))"

text \<open>The rest of the frame: token length, token, payload length, payload.\<close>

definition frameRest ::
  "byte list \<Rightarrow> nat \<Rightarrow> byte list \<Rightarrow> byte list \<Rightarrow> js_error + byte list" where
  "frameRest data position tok message =
     (case writeUInt16BE data (length tok) position of
        Inl err \<Rightarrow> Inl err
      | Inr data \<Rightarrow>
          let position = position + 2
          in (case Buffer_copy tok data position of
                Inl err \<Rightarrow> Inl err
              | Inr (copied, data) \<Rightarrow>
                  let position = position + copied
                  in (case writeUInt16BE data (length message) position of
                        Inl err \<Rightarrow> Inl err
                      | Inr data \<Rightarrow>
                          let position = position + 2
                          in (case Buffer_write data message position of
                                Inl err \<Rightarrow> Inl err
                              | Inr (stored, data) \<Rightarrow> Inr data))))"

definition socket_write :: "byte list \<Rightarrow> connection \<Rightarrow> connection" where
  "socket_write data c =
     (case socket c of
        Some s \<Rightarrow> c\<lparr>socket := Some (s\<lparr>written := written s @ [data]\<rparr>)\<rparr>
      | None \<Rightarrow> c)"

definition sendNotification_then ::
  "env \<Rightarrow> notification \<Rightarrow> connection \<Rightarrow> send_result \<times> connection" where
  "sendNotification_then e notification c =
     (case socket c of
        None \<Rightarrow> (Threw TypeError, c)
      | Some s \<Rightarrow>
          if bufferSize s \<noteq> 0 \<or> \<not> writable s
          then (Buffered, bufferNotification notification c)
          else
            (case device notification of
               None \<Rightarrow> (Threw TypeError, c)
             | Some d \<Rightarrow>
                 let tok = token d;
                     message = stringify e notification;
                     messageLength = length message
                 in if tok = Token_undefined
                    then (Refused (Errors_missingDeviceToken e),
                          raiseError (Errors_missingDeviceToken e) (Some notification) c)
                    else if messageLength > 255
                    then (Refused (Errors_invalidPayloadSize e),
                          raiseError (Errors_invalidPayloadSize e) (Some notification) c)
                    else
                      let identifier = currentId c;
                          n1 = notification\<lparr>uid := Some identifier\<rparr>;
                          c1 = c\<lparr>currentId := currentId c + 1\<rparr>;
                          c2 = (if currentId c1 > 0xffffffff then c1\<lparr>currentId := 0\<rparr> else c1)
                      in (case tok of
                            Token_buffer bytes \<Rightarrow>
                              (case frameStart e (enhanced (options c2)) identifier (expiry n1)
                                      (length bytes) messageLength of
                                 Inl err \<Rightarrow> (Threw_numbered err, c2)
                               | Inr (data, position) \<Rightarrow>
                                   let c3 = (if enhanced (options c2)
                                             then cacheNotification n1 c2 else c2)
                                   in (case frameRest data position bytes message of
                                         Inl err \<Rightarrow> (Threw_numbered err, c3)
                                       | Inr data \<Rightarrow> (Sent n1 data, socket_write data c3)))
                          | _ \<Rightarrow> (Threw_numbered TypeError, c2))))"

text \<open>
  The continuation given to \<^verbatim>\<open>fail\<close> is not bound to the connection, so
  \<^verbatim>\<open>this.raiseError\<close> is not a function there: the call throws, the promise library
  keeps the exception, and nothing reaches the error callback.
\<close>

definition sendNotification_fail :: "connection \<Rightarrow> send_result \<times> connection" where
  "sendNotification_fail c = (Threw TypeError, c)"

text \<open>
  One turn of the promise library: the oldest continuation still attached to the
  current connection promise runs, \<^verbatim>\<open>then\<close> on a fulfilled promise, \<^verbatim>\<open>fail\<close> on a
  rejected one (and also after an exception in \<^verbatim>\<open>then\<close>, leaving the state as that
  exception left it).
\<close>

definition runContinuation :: "env \<Rightarrow> connection \<Rightarrow> send_result option \<times> connection" where
  "runContinuation e c =
     (case deferredConnection c of
        None \<Rightarrow> (None, c)
      | Some d \<Rightarrow>
          (case continuations d of
             [] \<Rightarrow> (None, c)
           | n # rest \<Rightarrow>
               let c1 = c\<lparr>deferredConnection := Some (d\<lparr>continuations := rest\<rparr>)\<rparr>
               in (case promise d of
                     Pending \<Rightarrow> (None, c)
                   | Fulfilled \<Rightarrow>
                       (case sendNotification_then e n c1 of
                          (r, c2) \<Rightarrow>
                            (case r of
                               Threw err \<Rightarrow> (Some r, snd (sendNotification_fail c2))
                             | Threw_numbered err \<Rightarrow>
                                 (Some r, snd (sendNotification_fail c2))
                             | _ \<Rightarrow> (Some r, c2)))
                   | Rejected \<Rightarrow>
                       (Some (fst (sendNotification_fail c1)),
                        snd (sendNotification_fail c1)))))"

definition socketDrained :: "connection \<Rightarrow> connection" where
  "socketDrained c =
     (if (case socket c of Some s \<Rightarrow> bufferSize s \<noteq> 0 \<or> \<not> writable s | None \<Rightarrow> False)
      then c
      else
        (case notificationBuffer c of
           [] \<Rightarrow> c
         | n # rest \<Rightarrow> snd (sendNotification n (c\<lparr>notificationBuffer := rest\<rparr>))))"

text \<open>
  Settling a deferred changes its promise only while that is pending.
\<close>

definition deferred_resolve :: "deferred \<Rightarrow> deferred" where
  "deferred_resolve d = (if promise d = Pending then d\<lparr>promise := Fulfilled\<rparr> else d)"

definition deferred_reject :: "deferred \<Rightarrow> deferred" where
  "deferred_reject d = (if promise d = Pending then d\<lparr>promise := Rejected\<rparr> else d)"

text \<open>
  \<^verbatim>\<open>restartConnection\<close> handles \<^verbatim>\<open>end\<close> and \<^verbatim>\<open>close\<close>. Reading
  \<^verbatim>\<open>this.deferredConnection.promise\<close> throws when there is no deferred. A promise that
  is still pending is rejected; the deferred is dropped right after, and with it the
  continuations that waited for it.
\<close>

definition restartConnection :: "connection \<Rightarrow> completion \<times> connection" where
  "restartConnection c =
     (let c1 = (case socket c of
                  Some s \<Rightarrow> c\<lparr>socket := Some (s\<lparr>listening := False\<rparr>)\<rparr>
                | None \<Rightarrow> c)
      in (case deferredConnection c1 of
            None \<Rightarrow> (Throw TypeError, c1)
          | Some d \<Rightarrow>
              let c2 = (if promise d = Pending
                        then c1\<lparr>deferredConnection := Some (deferred_reject d)\<rparr>
                        else c1);
                  c3 = c2\<lparr>socket := None\<rparr>;
                  c4 = c3\<lparr>deferredConnection := None\<rparr>;
                  c5 = (case connectionTimeout c4 of
                          Some armed \<Rightarrow> c4\<lparr>connectionTimeout := Some False\<rparr>
                        | None \<Rightarrow> c4)
              in (Normal, if notificationBuffer c5 \<noteq> [] then snd (connect c5) else c5)))"

text \<open>
  The three callbacks inside \<^verbatim>\<open>connect\<close>. When the credentials are there,
  \<^verbatim>\<open>tls.connect\<close> yields the stream \<open>s\<close> and the handlers are attached; when they
  cannot be loaded the connection promise is rejected; when the TLS handshake is over,
  an unauthorized peer rejects the promise, and otherwise the idle timer is set up anew
  (only for a positive \<^verbatim>\<open>options.connectionTimeout\<close>), one buffered notification is
  submitted and the promise is fulfilled.
\<close>

definition connect_then :: "tls_socket \<Rightarrow> connection \<Rightarrow> connection" where
  "connect_then s c = c\<lparr>socket := Some (s\<lparr>listening := True\<rparr>)\<rparr>"

definition connect_fail :: "connection \<Rightarrow> completion \<times> connection" where
  "connect_fail c =
     (case deferredConnection c of
        None \<Rightarrow> (Throw TypeError, c)
      | Some d \<Rightarrow> (Normal, c\<lparr>deferredConnection := Some (deferred_reject d)\<rparr>))"

definition connect_callback :: "connection \<Rightarrow> completion \<times> connection" where
  "connect_callback c =
     (case socket c of
        None \<Rightarrow> (Throw TypeError, c)
      | Some s \<Rightarrow>
          if \<not> authorized s then
            (case deferredConnection c of
               None \<Rightarrow> (Throw TypeError, c)
             | Some d \<Rightarrow> (Normal, c\<lparr>deferredConnection := Some (deferred_reject d)\<rparr>))
          else
            let c1 = (case connectionTimeout c of
                        Some armed \<Rightarrow> c\<lparr>connectionTimeout := Some False\<rparr>
                      | None \<Rightarrow> c);
                c2 = (if opt_connectionTimeout (options c1) > 0
                      then c1\<lparr>connectionTimeout := Some True\<rparr>
                      else c1);
                c3 = socketDrained c2
            in (case deferredConnection c3 of
                  None \<Rightarrow> (Throw TypeError, c3)
                | Some d \<Rightarrow> (Normal, c3\<lparr>deferredConnection := Some (deferred_resolve d)\<rparr>)))"

subsection \<open>What can happen to a connection\<close>

text \<open>
  Everything that changes a connection: the application submits a notification, the
  promise library runs a continuation, the callbacks of \<^verbatim>\<open>connect\<close> run, the stream
  emits \<^verbatim>\<open>data\<close>, \<^verbatim>\<open>drain\<close>, \<^verbatim>\<open>error\<close>, \<^verbatim>\<open>end\<close> or \<^verbatim>\<open>close\<close>, the idle timer
  fires, or the runtime updates the figures of the stream. A stream delivers events only
  while the handlers are attached to it, a timer fires only while it is armed, and a
  continuation of \<^verbatim>\<open>connect\<close> runs only if \<^verbatim>\<open>connect\<close> attached one.
\<close>

datatype operation =
    Submit notification
  | Turn
  | SocketCreated tls_socket
  | InitializeFailed
  | SecureConnect
  | Data "byte list"
  | Drain
  | SocketError
  | End
  | Timeout
  | Transport nat bool bool

definition attached :: "connection \<Rightarrow> bool" where
  "attached c = (case socket c of Some s \<Rightarrow> listening s | None \<Rightarrow> False)"

fun perform :: "env \<Rightarrow> operation \<Rightarrow> connection \<Rightarrow> connection" where
  "perform e (Submit n) c = snd (sendNotification n c)"
| "perform e Turn c = snd (runContinuation e c)"
| "perform e (SocketCreated s) c =
     (if 0 < connectContinuations c
      then connect_then s (c\<lparr>connectContinuations := connectContinuations c - 1\<rparr>)
      else c)"
| "perform e InitializeFailed c =
     (if 0 < connectContinuations c
      then snd (connect_fail (c\<lparr>connectContinuations := connectContinuations c - 1\<rparr>))
      else c)"
| "perform e SecureConnect c = (if attached c then snd (connect_callback c) else c)"
| "perform e (Data data) c = (if attached c then snd (handleTransmissionError e data c) else c)"
| "perform e Drain c = (if attached c then socketDrained c else c)"
| "perform e SocketError c = (if attached c then destroyConnection c else c)"
| "perform e End c = (if attached c then snd (restartConnection c) else c)"
| "perform e Timeout c =
     (if connectionTimeout c = Some True
      then destroyConnection (c\<lparr>connectionTimeout := Some False\<rparr>)
      else c)"
| "perform e (Transport occupancy w a) c =
     (case socket c of
        Some s \<Rightarrow> c\<lparr>socket := Some (s\<lparr>bufferSize := occupancy, writable := w, authorized := a\<rparr>)\<rparr>
      | None \<Rightarrow> c)"

definition run :: "env \<Rightarrow> operation list \<Rightarrow> connection \<Rightarrow> connection" where
  "run e ops c = fold (perform e) ops c"

subsection \<open>The wire format in the words of the specification\<close>

text \<open>
  The specification describes the frames as concatenations of big-endian fields.
  \<open>u16BE\<close> and \<open>u32BE\<close> are the two- and four-byte big-endian representations of a
  number (the most significant byte first; \<open>be_value\<close> reads such a sequence back),
  and the two frame layouts follow section 6 of the specification word for word.
\<close>

definition u16BE :: "nat \<Rightarrow> byte list" where
  "u16BE v = [of_nat (v div 2 ^ 8), of_nat v]"

definition u32BE :: "nat \<Rightarrow> byte list" where
  "u32BE v = [of_nat (v div 2 ^ 24), of_nat (v div 2 ^ 16), of_nat (v div 2 ^ 8), of_nat v]"

definition be_value :: "byte list \<Rightarrow> nat" where
  "be_value bs = foldl (\<lambda>a b. a * 256 + unat b) 0 bs"

definition enhanced_frame :: "nat \<Rightarrow> 32 word \<Rightarrow> byte list \<Rightarrow> byte list \<Rightarrow> byte list" where
  "enhanced_frame identifier expiry_time tok payload =
     [1] @ u32BE identifier @ u32BE (unat expiry_time) @ u16BE (length tok) @ tok
       @ u16BE (length payload) @ payload"

definition simple_frame :: "byte list \<Rightarrow> byte list \<Rightarrow> byte list" where
  "simple_frame tok payload = [0] @ u16BE (length tok) @ tok @ u16BE (length payload) @ payload"

subsection \<open>Observing a run\<close>

text \<open>
  The outcomes of the send continuations that ran during a sequence of operations, in
  order, and the identifiers of the notifications that were written among them.
\<close>

definition sent_uid :: "send_result \<Rightarrow> nat option" where
  "sent_uid r = (case r of Sent n data \<Rightarrow> uid n | _ \<Rightarrow> None)"

definition is_sent :: "send_result \<Rightarrow> bool" where
  "is_sent r = (case r of Sent n data \<Rightarrow> True | _ \<Rightarrow> False)"

fun outcomes :: "env \<Rightarrow> operation list \<Rightarrow> connection \<Rightarrow> send_result list" where
  "outcomes e [] c = []"
| "outcomes e (op # ops) c =
     (case op of
        Turn \<Rightarrow> (case fst (runContinuation e c) of Some r \<Rightarrow> [r] | None \<Rightarrow> [])
      | _ \<Rightarrow> [])
     @ outcomes e ops (perform e op c)"

definition assigned_identifiers :: "env \<Rightarrow> operation list \<Rightarrow> connection \<Rightarrow> nat option list" where
  "assigned_identifiers e ops c = map sent_uid (filter is_sent (outcomes e ops c))"

subsection \<open>Invariants and reset states\<close>

definition cache_bounded :: "connection \<Rightarrow> bool" where
  "cache_bounded c = (int (length (cachedNotifications c)) \<le> cacheLength (options c))"

text \<open>
  What ties the connection attempt to the stream: a stream with its handlers attached
  belongs to a connection attempt on record, and a continuation of \<^verbatim>\<open>connect\<close> is
  pending only while the attempt has no stream yet, one at a time.
\<close>

definition connecting_consistent :: "connection \<Rightarrow> bool" where
  "connecting_consistent c =
     ((attached c \<longrightarrow> deferredConnection c \<noteq> None)
      \<and> (0 < connectContinuations c \<longrightarrow> deferredConnection c \<noteq> None \<and> \<not> attached c)
      \<and> connectContinuations c \<le> 1)"

text \<open>
  The state in which \<^verbatim>\<open>restartConnection\<close> leaves the fields it resets: no connection
  attempt, no stream, no armed timer.
\<close>

definition disconnected :: "connection \<Rightarrow> connection" where
  "disconnected c =
     c\<lparr>deferredConnection := None, socket := None,
       connectionTimeout := map_option (\<lambda>armed. False) (connectionTimeout c)\<rparr>"

subsection \<open>Concrete values\<close>

text \<open>
  An environment with sample error codes (255 for \<^verbatim>\<open>none\<close>), a serializer that
  yields the content as it is, and a stream that accepts data.
\<close>

definition example_env :: env where
  "example_env =
     \<lparr>Errors_none = 255, Errors_missingDeviceToken = 2, Errors_invalidPayloadSize = 7,
      stringify = content, uninitialised = (\<lambda>i. 170)\<rparr>"

definition example_notification :: "nat \<Rightarrow> notification" where
  "example_notification i =
     \<lparr>device = Some \<lparr>token = Token_buffer [1, 2]\<rparr>, expiry = 258, uid = Some i,
      content = [3, 4, 5]\<rparr>"

definition example_socket :: tls_socket where
  "example_socket =
     \<lparr>bufferSize = 0, writable = True, authorized = True, written = [],
      listening = True, destroySoon_called = False\<rparr>"

definition example_connection :: connection where
  "example_connection =
     (Connection (default_options\<lparr>errorCallback := True\<rparr>))
       \<lparr>deferredConnection := Some \<lparr>promise = Fulfilled, continuations = []\<rparr>,
        socket := Some example_socket\<rparr>"

text \<open>A connection whose cache holds its two entries, the most it may.\<close>

definition full_cache_connection :: connection where
  "full_cache_connection =
     example_connection
       \<lparr>options := (options example_connection)\<lparr>cacheLength := 2\<rparr>,
        cachedNotifications := map example_notification [5, 6]\<rparr>"

text \<open>A connection about to assign the last identifier before the wrap-around.\<close>

definition wrapping_connection :: connection where
  "wrapping_connection =
     example_connection
       \<lparr>deferredConnection :=
          Some \<lparr>promise = Fulfilled,
                continuations = [example_notification 0, example_notification 1]\<rparr>,
        currentId := 4294967295\<rparr>"

text \<open>
  A notification with a payload of a given length, one whose device has no token, a
  connection whose stream still holds unsent data, and a connection of the simple
  variant.
\<close>

definition payload_notification :: "nat \<Rightarrow> notification" where
  "payload_notification k =
     \<lparr>device = Some \<lparr>token = Token_buffer [1, 2]\<rparr>, expiry = 0, uid = None,
      content = replicate k 65\<rparr>"

definition tokenless_notification :: notification where
  "tokenless_notification =
     \<lparr>device = Some \<lparr>token = Token_undefined\<rparr>, expiry = 0, uid = None,
      content = [3, 4, 5]\<rparr>"

definition busy_connection :: connection where
  "busy_connection = example_connection\<lparr>socket := Some (example_socket\<lparr>bufferSize := 1024\<rparr>)\<rparr>"

definition simple_connection :: connection where
  "simple_connection =
     example_connection\<lparr>options := (options example_connection)\<lparr>enhanced := False\<rparr>\<rparr>"

section \<open>Properties\<close>

subsection \<open>Replay after an error frame\<close>

lemma scanCache_found:
  "uid m = Some i \<Longrightarrow> \<forall>x\<in>set older. uid x \<noteq> Some i \<Longrightarrow>
   scanCache i (older @ m # newer) t = (Some m, newer, t @ older)"
  by (induction older arbitrary: t) auto

lemma scanCache_none:
  "\<forall>x\<in>set xs. uid x \<noteq> Some i \<Longrightarrow> scanCache i xs t = (None, [], t @ xs)"
  by (induction xs arbitrary: t) auto

lemma requeue_all:
  "cachedNotifications c = xs \<Longrightarrow>
   requeue (length xs) c =
     c\<lparr>cachedNotifications := [], notificationBuffer := notificationBuffer c @ xs\<rparr>"
  by (induction xs arbitrary: c) (auto simp: bufferNotification_def)

text \<open>
  C1. In the enhanced variant, let \<open>data\<close> be an error frame (first byte 8, status code
  \<open>data ! 1\<close>, identifier read big-endian from offset 2) and let the cache be
  \<open>older @ m # newer\<close>, where \<open>m\<close> is the first entry carrying the frame's identifier.
  Handling the frame returns normally and changes the connection in exactly this way:
  the cache is empty, the outbound buffer has gained \<open>newer\<close> at its end in the original
  order, \<open>raiseError\<close> ran once, with the status code and \<open>m\<close>, which is one call of the
  error callback when one is configured, and the stream was asked to close. The entries
  of \<open>older\<close> are gone: no callback, no buffer entry. (The simple variant ignores error
  frames; there the cache of a connection is always empty, so no frame can match.)
\<close>

theorem handleTransmissionError_match:
  assumes "enhanced (options c)"
    and "data = 8 # rest" and "readUInt32BE data 2 = Inr identifier"
    and "cachedNotifications c = older @ m # newer"
    and "uid m = Some identifier" and "\<forall>x\<in>set older. uid x \<noteq> Some identifier"
  shows "handleTransmissionError e data c =
           (Normal, destroyConnection
              (raiseError (unat (data ! 1)) (Some m)
                 (c\<lparr>cachedNotifications := [],
                    notificationBuffer := notificationBuffer c @ newer\<rparr>)))
         \<and> cachedNotifications (snd (handleTransmissionError e data c)) = []
         \<and> notificationBuffer (snd (handleTransmissionError e data c))
             = notificationBuffer c @ newer
         \<and> callbackCalls (snd (handleTransmissionError e data c))
             = (if errorCallback (options c)
                then callbackCalls c @ [(unat (data ! 1), Some m)]
                else callbackCalls c)"
proof -
  have scan: "scanCache identifier (cachedNotifications c) [] = (Some m, newer, older)"
    using assms(4-6) by (simp add: scanCache_found)
  have "handleTransmissionError e data c =
           (Normal, destroyConnection
              (raiseError (unat (data ! 1)) (Some m)
                 (c\<lparr>cachedNotifications := [],
                    notificationBuffer := notificationBuffer c @ newer\<rparr>)))"
    using assms(1-3) scan
    by (cases c) (simp add: handleTransmissionError_def raiseError_def requeue_all)
  then show ?thesis
    by (simp add: destroyConnection_def raiseError_def split: option.split)
qed

theorem handleTransmissionError_match_witness:
  "handleTransmissionError example_env [8, 8, 0, 0, 0, 7]
     (example_connection\<lparr>cachedNotifications := map example_notification [5, 6, 7, 8]\<rparr>)
   = (Normal,
      example_connection
        \<lparr>notificationBuffer := [example_notification 8],
         socket := Some (example_socket\<lparr>destroySoon_called := True\<rparr>),
         callbackCalls := [(8, Some (example_notification 7))]\<rparr>)"
  using handleTransmissionError_match
    [of "example_connection\<lparr>cachedNotifications := map example_notification [5, 6, 7, 8]\<rparr>"
        "[8, 8, 0, 0, 0, 7]" "[8, 0, 0, 0, 7]" 7
        "[example_notification 5, example_notification 6]" "example_notification 7"
        "[example_notification 8]" example_env]
  by (simp add: example_connection_def Connection_def default_options_def readUInt32BE_def
        example_notification_def destroyConnection_def raiseError_def)

text \<open>
  C2, as the code has it. Let \<open>data\<close> be an error frame (first byte 8). In the enhanced
  variant, when no cached entry carries the identifier of the frame, handling the frame
  returns normally and changes the connection in exactly this way: the cache is empty,
  the outbound buffer has gained the whole former cache at its end in the original
  order, \<open>raiseError\<close> ran once, with the code \<^verbatim>\<open>Errors["none"]\<close> and \<^verbatim>\<open>null\<close> for the
  notification, which is one call of the error callback when one is configured, and the
  stream was asked to close. In the simple variant the frame is ignored: the handler
  returns at once, the connection is as before and the error callback is not called.
\<close>

theorem handleTransmissionError_no_match:
  assumes "data = 8 # rest"
  shows "(enhanced (options c) \<and> readUInt32BE data 2 = Inr identifier
            \<and> (\<forall>x\<in>set (cachedNotifications c). uid x \<noteq> Some identifier) \<longrightarrow>
            handleTransmissionError e data c =
              (Normal, destroyConnection
                 (raiseError (Errors_none e) None
                    (c\<lparr>cachedNotifications := [],
                       notificationBuffer := notificationBuffer c @ cachedNotifications c\<rparr>)))
            \<and> cachedNotifications (snd (handleTransmissionError e data c)) = []
            \<and> notificationBuffer (snd (handleTransmissionError e data c))
                = notificationBuffer c @ cachedNotifications c
            \<and> callbackCalls (snd (handleTransmissionError e data c))
                = (if errorCallback (options c)
                   then callbackCalls c @ [(Errors_none e, None)]
                   else callbackCalls c))
       \<and> (\<not> enhanced (options c) \<longrightarrow> handleTransmissionError e data c = (Normal, c))"
proof (intro conjI impI)
  assume h: "enhanced (options c) \<and> readUInt32BE data 2 = Inr identifier
             \<and> (\<forall>x\<in>set (cachedNotifications c). uid x \<noteq> Some identifier)"
  then have scan:
    "scanCache identifier (cachedNotifications c) [] = (None, [], cachedNotifications c)"
    by (simp add: scanCache_none)
  show handled: "handleTransmissionError e data c =
           (Normal, destroyConnection
              (raiseError (Errors_none e) None
                 (c\<lparr>cachedNotifications := [],
                    notificationBuffer := notificationBuffer c @ cachedNotifications c\<rparr>)))"
    using assms h scan
    by (cases c) (simp add: handleTransmissionError_def raiseError_def requeue_all)
  show "cachedNotifications (snd (handleTransmissionError e data c)) = []"
    by (simp add: handled destroyConnection_def raiseError_def split: option.split)
  show "notificationBuffer (snd (handleTransmissionError e data c))
          = notificationBuffer c @ cachedNotifications c"
    by (simp add: handled destroyConnection_def raiseError_def split: option.split)
  show "callbackCalls (snd (handleTransmissionError e data c))
          = (if errorCallback (options c)
             then callbackCalls c @ [(Errors_none e, None)]
             else callbackCalls c)"
    by (simp add: handled destroyConnection_def raiseError_def split: option.split)
next
  assume "\<not> enhanced (options c)"
  then show "handleTransmissionError e data c = (Normal, c)"
    using assms by (simp add: handleTransmissionError_def)
qed

theorem handleTransmissionError_no_match_witness:
  "enhanced (options example_connection)
   \<and> readUInt32BE [8, 8, 0, 0, 0, 99] 2 = Inr 99
   \<and> map uid (map example_notification [5, 6, 7, 8]) = [Some 5, Some 6, Some 7, Some 8]
   \<and> handleTransmissionError example_env [8, 8, 0, 0, 0, 99]
       (example_connection\<lparr>cachedNotifications := map example_notification [5, 6, 7, 8]\<rparr>)
     = (Normal,
        example_connection
          \<lparr>notificationBuffer := map example_notification [5, 6, 7, 8],
           socket := Some (example_socket\<lparr>destroySoon_called := True\<rparr>),
           callbackCalls := [(255, None)]\<rparr>)
   \<and> \<not> enhanced (options simple_connection)
   \<and> handleTransmissionError example_env [8, 8, 0, 0, 0, 99] simple_connection
     = (Normal, simple_connection)"
  using handleTransmissionError_no_match
    [of "[8, 8, 0, 0, 0, 99]" "[8, 0, 0, 0, 99]"
        "example_connection\<lparr>cachedNotifications := map example_notification [5, 6, 7, 8]\<rparr>"
        99 example_env]
    handleTransmissionError_no_match
    [of "[8, 8, 0, 0, 0, 99]" "[8, 0, 0, 0, 99]" simple_connection 99 example_env]
  by (simp add: example_connection_def simple_connection_def Connection_def default_options_def
        readUInt32BE_def example_notification_def destroyConnection_def example_env_def
        raiseError_def)

text \<open>
  C2 as stated does not hold in the simple variant. There the cache is always empty, so
  no cached entry carries the identifier of any error frame; yet the handler returns
  before it reads the frame, and the configured error callback is not called.
\<close>

theorem handleTransmissionError_no_match_counterexample:
  "errorCallback (options simple_connection)
   \<and> cachedNotifications simple_connection = []
   \<and> readUInt32BE [8, 8, 0, 0, 0, 99] 2 = Inr 99
   \<and> handleTransmissionError example_env [8, 8, 0, 0, 0, 99] simple_connection
       = (Normal, simple_connection)
   \<and> callbackCalls simple_connection = []
   \<and> callbackCalls (snd (handleTransmissionError example_env [8, 8, 0, 0, 0, 99]
                            simple_connection)) = []"
  by (simp add: simple_connection_def example_connection_def Connection_def default_options_def
        readUInt32BE_def handleTransmissionError_def)

subsection \<open>The bound on the transmission cache\<close>

lemma options_simps:
  "options (bufferNotification n c) = options c"
  "options (cacheNotification n c) = options c"
  "options (raiseError k m c) = options c"
  "options (socket_write d c) = options c"
  "options (destroyConnection c) = options c"
  "options (snd (connect c)) = options c"
  "options (connect_then s c) = options c"
  by (simp_all add: bufferNotification_def cacheNotification_def raiseError_def socket_write_def
      destroyConnection_def connect_def connect_then_def Let_def split: option.split)

lemma cache_simps:
  "cachedNotifications (bufferNotification n c) = cachedNotifications c"
  "cachedNotifications (raiseError k m c) = cachedNotifications c"
  "cachedNotifications (socket_write d c) = cachedNotifications c"
  "cachedNotifications (destroyConnection c) = cachedNotifications c"
  "cachedNotifications (snd (connect c)) = cachedNotifications c"
  "cachedNotifications (connect_then s c) = cachedNotifications c"
  by (simp_all add: bufferNotification_def raiseError_def socket_write_def
      destroyConnection_def connect_def connect_then_def split: option.split)

lemma cacheNotification_cache:
  "cachedNotifications (cacheNotification n c) =
     (if int (length (cachedNotifications c)) + 1 > cacheLength (options c)
      then tl (cachedNotifications c @ [n]) else cachedNotifications c @ [n])"
  by (simp add: cacheNotification_def Let_def)

lemma cacheNotification_bounded:
  "0 \<le> cacheLength (options c) \<Longrightarrow> cache_bounded c \<Longrightarrow> cache_bounded (cacheNotification n c)"
  by (simp add: cache_bounded_def cacheNotification_cache options_simps)

lemma sendNotification_options: "options (snd (sendNotification n c)) = options c"
  by (simp add: sendNotification_def connect_def split: option.split prod.split)

lemma sendNotification_cache: "cachedNotifications (snd (sendNotification n c)) = cachedNotifications c"
  by (simp add: sendNotification_def connect_def split: option.split prod.split)

lemma then_options: "options (snd (sendNotification_then e n c)) = options c"
  by (simp add: sendNotification_then_def Let_def options_simps
      split: option.split sum.split prod.split js_token.split)

lemma then_bounded:
  "0 \<le> cacheLength (options c) \<Longrightarrow> cache_bounded c \<Longrightarrow> cache_bounded (snd (sendNotification_then e n c))"
  unfolding sendNotification_then_def Let_def
  by (auto simp add: cache_bounded_def cacheNotification_cache options_simps cache_simps
      split: option.split sum.split prod.split js_token.split)

lemma requeue_options: "options (requeue k c) = options c"
  by (induction k c rule: requeue.induct) (simp_all add: options_simps split: list.split)

lemma hte_options: "options (snd (handleTransmissionError e data c)) = options c"
  by (simp add: handleTransmissionError_def Let_def options_simps requeue_options split: list.split sum.split prod.split option.split)

lemma hte_cache:
  "cachedNotifications (snd (handleTransmissionError e data c)) = []
   \<or> snd (handleTransmissionError e data c) = c"
  by (simp add: handleTransmissionError_def Let_def requeue_all cache_simps
      split: list.split sum.split prod.split option.split)

lemma hte_bounded:
  "0 \<le> cacheLength (options c) \<Longrightarrow> cache_bounded c \<Longrightarrow>
   cache_bounded (snd (handleTransmissionError e data c))"
  using hte_cache [of e data c] hte_options [of e data c]
  by (auto simp: cache_bounded_def)

lemma runContinuation_state:
  "snd (runContinuation e c) = c
   \<or> (\<exists>d. snd (runContinuation e c) = c\<lparr>deferredConnection := d\<rparr>)
   \<or> (\<exists>d n. snd (runContinuation e c) =
               snd (sendNotification_then e n (c\<lparr>deferredConnection := d\<rparr>)))"
  by (auto simp add: runContinuation_def Let_def sendNotification_fail_def split_beta
      split: option.split list.split promise_state.split send_result.split)

lemma runContinuation_bounded:
  assumes "0 \<le> cacheLength (options c)" and "cache_bounded c"
  shows "cache_bounded (snd (runContinuation e c))"
proof -
  have b: "0 \<le> cacheLength (options (c\<lparr>deferredConnection := d\<rparr>))
           \<and> cache_bounded (c\<lparr>deferredConnection := d\<rparr>)" for d
    using assms by (simp add: cache_bounded_def)
  show ?thesis
    using runContinuation_state [of e c] assms b then_bounded
    by (elim disjE exE) simp_all
qed

lemma runContinuation_options: "options (snd (runContinuation e c)) = options c"
  using runContinuation_state [of e c]
  by (elim disjE exE) (simp_all add: then_options)

lemma socketDrained_view:
  "options (socketDrained c) = options c"
  "cachedNotifications (socketDrained c) = cachedNotifications c"
  by (simp_all add: socketDrained_def sendNotification_options sendNotification_cache
      split: option.split list.split)

lemma restartConnection_view:
  "options (snd (restartConnection c)) = options c"
  "cachedNotifications (snd (restartConnection c)) = cachedNotifications c"
  by (simp_all add: restartConnection_def Let_def connect_def
      split: option.split list.split)

lemma connect_fail_view:
  "options (snd (connect_fail c)) = options c"
  "cachedNotifications (snd (connect_fail c)) = cachedNotifications c"
  by (simp_all add: connect_fail_def split: option.split)

lemma connect_callback_view:
  "options (snd (connect_callback c)) = options c"
  "cachedNotifications (snd (connect_callback c)) = cachedNotifications c"
  by (simp_all add: connect_callback_def Let_def socketDrained_view
      split: option.split)

lemma perform_options: "options (perform e op c) = options c"
  by (cases op)
     (simp_all add: sendNotification_options runContinuation_options options_simps
        connect_fail_view connect_callback_view hte_options socketDrained_view
        restartConnection_view split: option.split)

lemma perform_bounded:
  "0 \<le> cacheLength (options c) \<Longrightarrow> cache_bounded c \<Longrightarrow> cache_bounded (perform e op c)"
proof (cases op)
  case (Submit n)
  assume "cache_bounded c"
  then show ?thesis using Submit
    by (simp add: cache_bounded_def sendNotification_options sendNotification_cache)
next
  case Turn
  assume "0 \<le> cacheLength (options c)" "cache_bounded c"
  then show ?thesis using Turn by (simp add: runContinuation_bounded)
next
  case (Data data)
  assume "0 \<le> cacheLength (options c)" "cache_bounded c"
  then show ?thesis using Data by (simp add: hte_bounded)
qed (simp_all add: cache_bounded_def options_simps cache_simps connect_fail_view
      connect_callback_view socketDrained_view restartConnection_view split: option.split)

lemma run_bounded:
  "0 \<le> cacheLength (options c) \<Longrightarrow> cache_bounded c \<Longrightarrow> cache_bounded (run e ops c)"
  unfolding run_def
  by (induction ops arbitrary: c) (simp_all add: perform_bounded perform_options)

lemma run_options: "options (run e ops c) = options c"
  unfolding run_def by (induction ops arbitrary: c) (simp_all add: perform_options)

lemma fold_cacheNotification_bounded:
  "0 \<le> cacheLength (options c) \<Longrightarrow> cache_bounded c \<Longrightarrow>
   cache_bounded (fold cacheNotification ns c)"
  by (induction ns arbitrary: c) (simp_all add: cacheNotification_bounded options_simps)

lemma fold_cacheNotification_options: "options (fold cacheNotification ns c) = options c"
  by (induction ns arbitrary: c) (simp_all add: options_simps)

text \<open>
  C4. Let the configured \<open>cacheLength\<close> be non-negative and let the cache hold at most
  \<open>cacheLength\<close> entries, as it does in a new connection. Then after
  \<open>cacheNotification\<close> it still holds at most \<open>cacheLength\<close> entries; if it held exactly
  \<open>cacheLength\<close> entries, the new cache is the old one with the notification appended and
  the oldest entry removed; if it held fewer, the notification is appended and nothing
  is removed; the bound holds after every sequence of appends; and it holds after every
  sequence of operations on the connection.
\<close>

theorem cache_never_exceeds_cacheLength:
  assumes "0 \<le> cacheLength (options c)"
    and "int (length (cachedNotifications c)) \<le> cacheLength (options c)"
  shows "int (length (cachedNotifications (cacheNotification n c))) \<le> cacheLength (options c)
       \<and> (int (length (cachedNotifications c)) = cacheLength (options c) \<longrightarrow>
            cachedNotifications (cacheNotification n c) = tl (cachedNotifications c @ [n]))
       \<and> (int (length (cachedNotifications c)) < cacheLength (options c) \<longrightarrow>
            cachedNotifications (cacheNotification n c) = cachedNotifications c @ [n])
       \<and> int (length (cachedNotifications (fold cacheNotification ns c))) \<le> cacheLength (options c)
       \<and> int (length (cachedNotifications (run e ops c))) \<le> cacheLength (options c)"
proof -
  have b: "cache_bounded c" using assms(2) by (simp add: cache_bounded_def)
  have 1: "int (length (cachedNotifications (cacheNotification n c))) \<le> cacheLength (options c)"
    using cacheNotification_bounded [OF assms(1) b, of n]
    by (simp add: cache_bounded_def options_simps)
  have 2: "int (length (cachedNotifications (fold cacheNotification ns c))) \<le> cacheLength (options c)"
    using fold_cacheNotification_bounded [OF assms(1) b, of ns]
    by (simp add: cache_bounded_def fold_cacheNotification_options)
  have 3: "int (length (cachedNotifications (run e ops c))) \<le> cacheLength (options c)"
    using run_bounded [OF assms(1) b, of e ops]
    by (simp add: cache_bounded_def run_options)
  show ?thesis
    using 1 2 3 by (simp add: cacheNotification_cache)
qed

theorem cache_never_exceeds_cacheLength_witness:
  "0 \<le> cacheLength (options full_cache_connection)
   \<and> int (length (cachedNotifications full_cache_connection))
       = cacheLength (options full_cache_connection)
   \<and> cachedNotifications (cacheNotification (example_notification 7) full_cache_connection)
       = map example_notification [6, 7]
   \<and> int (length (cachedNotifications
         (fold cacheNotification (map example_notification [7, 8, 9]) full_cache_connection)))
       \<le> 2
   \<and> int (length (cachedNotifications
         (run example_env [Data [8, 8, 0, 0, 0, 6], Drain] full_cache_connection))) \<le> 2"
  using cache_never_exceeds_cacheLength
    [of full_cache_connection "example_notification 7" "map example_notification [7, 8, 9]"
        example_env "[Data [8, 8, 0, 0, 0, 6], Drain]"]
  by (simp add: full_cache_connection_def example_connection_def Connection_def
        default_options_def)

subsection \<open>Identifiers\<close>

lemma currentId_simps:
  "currentId (bufferNotification n c) = currentId c"
  "currentId (cacheNotification n c) = currentId c"
  "currentId (raiseError k m c) = currentId c"
  "currentId (socket_write d c) = currentId c"
  "currentId (destroyConnection c) = currentId c"
  "currentId (snd (connect c)) = currentId c"
  "currentId (connect_then s c) = currentId c"
  "currentId (snd (sendNotification n c)) = currentId c"
  "currentId (snd (connect_fail c)) = currentId c"
  "currentId (snd (restartConnection c)) = currentId c"
  by (simp_all add: bufferNotification_def cacheNotification_def raiseError_def socket_write_def
      destroyConnection_def connect_def connect_then_def sendNotification_def connect_fail_def
      restartConnection_def Let_def split: option.split prod.split)

lemma wrap_at_top: "4294967294 < k \<Longrightarrow> k \<le> 4294967295 \<Longrightarrow> Suc k mod 4294967296 = 0"
proof -
  assume "4294967294 < k" "k \<le> 4294967295"
  then have "k = 4294967295" by linarith
  then show ?thesis by simp
qed

lemma then_currentId:
  assumes "currentId c \<le> 0xffffffff"
  shows "case fst (sendNotification_then e n c) of
           Sent n1 data \<Rightarrow> uid n1 = Some (currentId c)
             \<and> currentId (snd (sendNotification_then e n c)) = (currentId c + 1) mod 2 ^ 32
         | Threw_numbered err \<Rightarrow> True
         | _ \<Rightarrow> currentId (snd (sendNotification_then e n c)) = currentId c"
  using assms
  by (auto simp add: sendNotification_then_def Let_def currentId_simps wrap_at_top
      split: option.split sum.split prod.split js_token.split)

lemma then_Sent:
  "currentId c \<le> 0xffffffff \<Longrightarrow> fst (sendNotification_then e n c) = Sent n1 data \<Longrightarrow>
   uid n1 = Some (currentId c)
   \<and> currentId (snd (sendNotification_then e n c)) = (currentId c + 1) mod 2 ^ 32"
  using then_currentId [of c e n] by simp

lemma then_not_Sent:
  "currentId c \<le> 0xffffffff \<Longrightarrow> \<not> is_sent (fst (sendNotification_then e n c)) \<Longrightarrow>
   \<forall>err. fst (sendNotification_then e n c) \<noteq> Threw_numbered err \<Longrightarrow>
   currentId (snd (sendNotification_then e n c)) = currentId c"
  using then_currentId [of c e n]
  by (cases "fst (sendNotification_then e n c)") (auto simp: is_sent_def)

lemma runContinuation_Fulfilled:
  assumes "deferredConnection c = Some d" and "continuations d = n # rest"
    and "promise d = Fulfilled"
  shows "runContinuation e c =
           (Some (fst (sendNotification_then e n
                    (c\<lparr>deferredConnection := Some (d\<lparr>continuations := rest\<rparr>)\<rparr>))),
            snd (sendNotification_then e n
                    (c\<lparr>deferredConnection := Some (d\<lparr>continuations := rest\<rparr>)\<rparr>)))"
  using assms
  by (simp add: runContinuation_def Let_def sendNotification_fail_def split_beta
      split: send_result.split)

lemma runContinuation_result:
  "(fst (runContinuation e c) = None \<and> snd (runContinuation e c) = c)
   \<or> (\<exists>d. fst (runContinuation e c) = Some (Threw TypeError)
          \<and> snd (runContinuation e c) = c\<lparr>deferredConnection := d\<rparr>)
   \<or> (\<exists>d n. fst (runContinuation e c)
               = Some (fst (sendNotification_then e n (c\<lparr>deferredConnection := d\<rparr>)))
          \<and> snd (runContinuation e c)
               = snd (sendNotification_then e n (c\<lparr>deferredConnection := d\<rparr>)))"
proof (cases "deferredConnection c")
  case None
  then show ?thesis by (simp add: runContinuation_def)
next
  case (Some d)
  show ?thesis
  proof (cases "continuations d")
    case Nil
    with Some show ?thesis by (simp add: runContinuation_def)
  next
    case (Cons n rest)
    show ?thesis
    proof (cases "promise d")
      case Pending
      with Some Cons show ?thesis by (simp add: runContinuation_def)
    next
      case Fulfilled
      from runContinuation_Fulfilled [OF Some Cons Fulfilled, of e]
      show ?thesis by auto
    next
      case Rejected
      with Some Cons show ?thesis
        by (auto simp add: runContinuation_def sendNotification_fail_def)
    qed
  qed
qed

lemma runContinuation_Sent:
  assumes "currentId c \<le> 0xffffffff" and "fst (runContinuation e c) = Some (Sent n1 data)"
  shows "uid n1 = Some (currentId c)
         \<and> currentId (snd (runContinuation e c)) = (currentId c + 1) mod 2 ^ 32"
  using runContinuation_result [of e c] assms
    then_Sent [of "c\<lparr>deferredConnection := d\<rparr>" e n n1 data for d n]
  by (elim disjE exE) simp_all

lemma runContinuation_not_Sent:
  assumes "currentId c \<le> 0xffffffff"
    and "\<forall>r. fst (runContinuation e c) = Some r \<longrightarrow>
           \<not> is_sent r \<and> (\<forall>err. r \<noteq> Threw_numbered err)"
  shows "currentId (snd (runContinuation e c)) = currentId c"
  using runContinuation_result [of e c] assms
    then_not_Sent [of "c\<lparr>deferredConnection := d\<rparr>" e n for d n]
  by (elim disjE exE) simp_all

lemma requeue_currentId: "currentId (requeue k c) = currentId c"
  by (induction k c rule: requeue.induct) (simp_all add: currentId_simps split: list.split)

lemma hte_currentId: "currentId (snd (handleTransmissionError e data c)) = currentId c"
  by (simp add: handleTransmissionError_def Let_def currentId_simps requeue_currentId
      split: list.split sum.split prod.split option.split)

lemma socketDrained_currentId: "currentId (socketDrained c) = currentId c"
  by (simp add: socketDrained_def currentId_simps split: option.split list.split)

lemma connect_callback_currentId: "currentId (snd (connect_callback c)) = currentId c"
  by (simp add: connect_callback_def Let_def socketDrained_currentId split: option.split)

lemma perform_currentId: "op \<noteq> Turn \<Longrightarrow> currentId (perform e op c) = currentId c"
  by (cases op)
     (simp_all add: currentId_simps hte_currentId socketDrained_currentId
        connect_callback_currentId split: option.split)

lemma consecutive_shift:
  fixes k M :: nat
  assumes "k < M"
  shows "Some k # map (\<lambda>j. Some (((k + 1) mod M + j) mod M)) [0..<m]
         = map (\<lambda>j. Some ((k + j) mod M)) [0..<Suc m]"
proof -
  have "map (\<lambda>j. Some ((k + j) mod M)) [0..<Suc m]
        = Some ((k + 0) mod M) # map (\<lambda>j. Some ((k + Suc j) mod M)) [0..<m]"
    by (simp add: upt_conv_Cons map_Suc_upt [symmetric] del: upt_Suc)
  moreover have "((k + 1) mod M + j) mod M = (k + Suc j) mod M" for j
    by (simp add: mod_add_left_eq)
  ultimately show ?thesis using assms by simp
qed

lemma outcomes_not_Turn:
  "op \<noteq> Turn \<Longrightarrow> outcomes e (op # ops) c = outcomes e ops (perform e op c)"
  by (cases op) simp_all

lemma assigned_identifiers_consecutive:
  assumes "currentId c \<le> 0xffffffff" and "\<forall>err. Threw_numbered err \<notin> set (outcomes e ops c)"
  shows "assigned_identifiers e ops c
           = map (\<lambda>k. Some ((currentId c + k) mod 2 ^ 32))
               [0..<length (assigned_identifiers e ops c)]
         \<and> currentId (run e ops c)
             = (currentId c + length (assigned_identifiers e ops c)) mod 2 ^ 32"
  using assms
proof (induction ops arbitrary: c)
  case Nil
  then show ?case by (simp add: assigned_identifiers_def run_def)
next
  case (Cons op ops)
  have r: "run e (op # ops) c = run e ops (perform e op c)"
    by (simp add: run_def)
  show ?case
  proof (cases "op = Turn")
    case False
    then have o: "outcomes e (op # ops) c = outcomes e ops (perform e op c)"
      by (rule outcomes_not_Turn)
    have i: "currentId (perform e op c) = currentId c"
      using False by (rule perform_currentId)
    show ?thesis
      using Cons.IH [of "perform e op c"] Cons.prems o i r
      by (simp add: assigned_identifiers_def)
  next
    case True
    let ?c' = "snd (runContinuation e c)"
    have p: "perform e op c = ?c'" using True by simp
    show ?thesis
    proof (cases "fst (runContinuation e c)")
      case None
      have i: "currentId ?c' = currentId c"
        using runContinuation_not_Sent [of c e] Cons.prems(1) None by simp
      show ?thesis
        using Cons.IH [of ?c'] Cons.prems True None i r p
        by (simp add: assigned_identifiers_def)
    next
      case (Some res)
      show ?thesis
      proof (cases "is_sent res")
        case False
        have "\<forall>err. res \<noteq> Threw_numbered err"
          using Cons.prems(2) True Some by auto
        then have i: "currentId ?c' = currentId c"
          using runContinuation_not_Sent [of c e] Cons.prems(1) Some False by simp
        show ?thesis
          using Cons.IH [of ?c'] Cons.prems True Some False i r p
          by (simp add: assigned_identifiers_def)
      next
        case sent: True
        then obtain n1 data where res: "res = Sent n1 data"
          by (cases res) (simp_all add: is_sent_def)
        have s: "uid n1 = Some (currentId c)"
          and i: "currentId ?c' = (currentId c + 1) mod 2 ^ 32"
          using runContinuation_Sent [of c e n1 data] Cons.prems(1) Some res by simp_all
        have "(currentId c + 1) mod 2 ^ 32 < (2 ^ 32 :: nat)"
          by (rule mod_less_divisor) simp
        then have b: "currentId ?c' \<le> 0xffffffff"
          unfolding i by simp
        have t: "\<forall>err. Threw_numbered err \<notin> set (outcomes e ops ?c')"
          using Cons.prems(2) True by simp
        have k: "currentId c < 2 ^ 32" using Cons.prems(1) by simp
        have a: "assigned_identifiers e (op # ops) c
                 = Some (currentId c) # assigned_identifiers e ops ?c'"
          using True Some res s by (simp add: assigned_identifiers_def is_sent_def sent_uid_def)
        have ids: "assigned_identifiers e (op # ops) c
           = map (\<lambda>k. Some ((currentId c + k) mod 2 ^ 32))
               [0..<length (assigned_identifiers e (op # ops) c)]"
          unfolding a
          using Cons.IH [OF b t]
            consecutive_shift [OF k, of "length (assigned_identifiers e ops ?c')"]
          by (simp add: i del: upt_Suc)
        have "currentId (run e (op # ops) c)
              = ((currentId c + 1) mod 2 ^ 32 + length (assigned_identifiers e ops ?c')) mod 2 ^ 32"
          using Cons.IH [OF b t] r p i by simp
        also have "\<dots> = (currentId c + length (assigned_identifiers e (op # ops) c)) mod 2 ^ 32"
          unfolding a by (simp add: mod_add_left_eq)
        finally show ?thesis using ids by simp
      qed
    qed
  qed
qed

lemma consecutive_distinct:
  fixes k M :: nat
  assumes "i < j" and "j - i < M"
  shows "(k + i) mod M \<noteq> (k + j) mod M"
proof
  assume "(k + i) mod M = (k + j) mod M"
  then have "(k + j) mod M = (k + i) mod M" by simp
  then have "M dvd (k + j) - (k + i)"
    using assms(1) by (simp add: mod_eq_dvd_iff_nat)
  then have "M dvd j - i" by simp
  then have "M \<le> j - i" using assms(1) by (simp add: dvd_imp_le)
  then show False using assms(2) by simp
qed

text \<open>
  C5. Take a connection whose \<open>currentId\<close> is at most \<open>2^32 - 1\<close> (a new connection
  starts at 0) and any sequence of operations on it during which no send continuation
  threw after taking its identifier. The identifiers of the notifications written are,
  in the order of the writes, \<open>currentId\<close>, \<open>currentId + 1\<close>, ... modulo \<open>2^32\<close>: each
  is one more than the one before, each is below \<open>2^32\<close>, after \<open>2^32 - 1\<close> comes 0,
  and two writes fewer than \<open>2^32\<close> apart never carry the same identifier.
\<close>

theorem identifiers_consecutive_mod_2_32:
  assumes "currentId c \<le> 0xffffffff" and "\<forall>err. Threw_numbered err \<notin> set (outcomes e ops c)"
  shows "assigned_identifiers e ops c
           = map (\<lambda>k. Some ((currentId c + k) mod 2 ^ 32))
               [0..<length (assigned_identifiers e ops c)]
         \<and> (\<forall>x\<in>set (assigned_identifiers e ops c). \<exists>k<2 ^ 32. x = Some k)
         \<and> (\<forall>i j. i < j \<and> j < length (assigned_identifiers e ops c) \<and> j - i < 2 ^ 32 \<longrightarrow>
               assigned_identifiers e ops c ! i \<noteq> assigned_identifiers e ops c ! j)
         \<and> currentId (run e ops c)
             = (currentId c + length (assigned_identifiers e ops c)) mod 2 ^ 32
         \<and> currentId (Connection opts) = 0"
proof -
  let ?ids = "assigned_identifiers e ops c"
  have eq: "?ids = map (\<lambda>k. Some ((currentId c + k) mod 2 ^ 32)) [0..<length ?ids]"
    and fin: "currentId (run e ops c) = (currentId c + length ?ids) mod 2 ^ 32"
    using assigned_identifiers_consecutive [OF assms] by simp_all
  have nth: "?ids ! i = Some ((currentId c + i) mod 2 ^ 32)" if "i < length ?ids" for i
    using that by (subst eq) simp
  have fits: "\<forall>x\<in>set ?ids. \<exists>k<2 ^ 32. x = Some k"
  proof
    fix x assume "x \<in> set ?ids"
    then obtain i where "i < length ?ids" "x = ?ids ! i"
      by (auto simp: in_set_conv_nth)
    then have "x = Some ((currentId c + i) mod 2 ^ 32)" using nth by simp
    moreover have "(currentId c + i) mod 2 ^ 32 < (2 ^ 32 :: nat)" by simp
    ultimately show "\<exists>k<2 ^ 32. x = Some k" by blast
  qed
  have distinct: "\<forall>i j. i < j \<and> j < length ?ids \<and> j - i < 2 ^ 32 \<longrightarrow> ?ids ! i \<noteq> ?ids ! j"
  proof (intro allI impI)
    fix i j assume h: "i < j \<and> j < length ?ids \<and> j - i < 2 ^ 32"
    then have "?ids ! i = Some ((currentId c + i) mod 2 ^ 32)"
      and "?ids ! j = Some ((currentId c + j) mod 2 ^ 32)"
      using nth by simp_all
    then show "?ids ! i \<noteq> ?ids ! j"
      using consecutive_distinct [of i j "2 ^ 32" "currentId c"] h by simp
  qed
  show ?thesis
    using eq fits distinct fin by (simp add: Connection_def)
qed

lemmas eval_defs = wrapping_connection_def example_connection_def example_socket_def
  example_notification_def example_env_def Connection_def default_options_def
  outcomes.simps runContinuation_def sendNotification_then_def sendNotification_fail_def
  frameStart_def frameRest_def new_Buffer_def writeUInt32BE_def writeUInt16BE_def
  Buffer_copy_def Buffer_write_def cacheNotification_def socket_write_def
  assigned_identifiers_def is_sent_def sent_uid_def run_def Let_def

theorem identifiers_consecutive_mod_2_32_witness:
  "currentId wrapping_connection \<le> 0xffffffff
   \<and> (\<forall>err. Threw_numbered err
            \<notin> set (outcomes example_env [Turn, Turn] wrapping_connection))
   \<and> assigned_identifiers example_env [Turn, Turn] wrapping_connection
       = [Some 4294967295, Some 0]
   \<and> currentId (run example_env [Turn, Turn] wrapping_connection) = 1"
  using identifiers_consecutive_mod_2_32
    [of wrapping_connection example_env "[Turn, Turn]"]
  by (simp add: eval_defs upt_conv_Cons)

subsection \<open>The states a connection can reach\<close>

text \<open>
  Three facts about every state reached from a new connection by any sequence of
  operations: \<open>currentId\<close> stays below \<open>2^32\<close>; in the simple variant the cache stays
  empty; and whenever a stream is attached, hence able to emit an event, a connection
  attempt is on record.
\<close>

lemma then_currentId_bound:
  "currentId c \<le> 0xffffffff \<Longrightarrow> currentId (snd (sendNotification_then e n c)) \<le> 0xffffffff"
  by (auto simp add: sendNotification_then_def Let_def currentId_simps
      split: option.split sum.split prod.split js_token.split)

lemma runContinuation_currentId_bound:
  assumes "currentId c \<le> 0xffffffff"
  shows "currentId (snd (runContinuation e c)) \<le> 0xffffffff"
proof -
  have "currentId (c\<lparr>deferredConnection := d\<rparr>) \<le> 0xffffffff" for d
    using assms by simp
  then show ?thesis
    using runContinuation_state [of e c] assms then_currentId_bound
    by (elim disjE exE) simp_all
qed

lemma perform_currentId_bound:
  "currentId c \<le> 0xffffffff \<Longrightarrow> currentId (perform e op c) \<le> 0xffffffff"
  by (cases "op = Turn") (simp_all add: runContinuation_currentId_bound perform_currentId)

lemma run_currentId_bound:
  "currentId c \<le> 0xffffffff \<Longrightarrow> currentId (run e ops c) \<le> 0xffffffff"
  unfolding run_def
  by (induction ops arbitrary: c) (simp_all add: perform_currentId_bound)

lemma then_simple_cache:
  "\<not> enhanced (options c) \<Longrightarrow>
   cachedNotifications (snd (sendNotification_then e n c)) = cachedNotifications c"
  by (auto simp add: sendNotification_then_def Let_def cache_simps
      split: option.split sum.split prod.split js_token.split)

lemma runContinuation_simple_cache:
  assumes "\<not> enhanced (options c)"
  shows "cachedNotifications (snd (runContinuation e c)) = cachedNotifications c"
proof -
  have "\<not> enhanced (options (c\<lparr>deferredConnection := d\<rparr>))" for d
    using assms by simp
  then show ?thesis
    using runContinuation_state [of e c] then_simple_cache
    by (elim disjE exE) simp_all
qed

lemma perform_simple_cache:
  assumes "\<not> enhanced (options c)" and "cachedNotifications c = []"
  shows "cachedNotifications (perform e op c) = []"
proof (cases op)
  case Turn
  then show ?thesis using assms by (simp add: runContinuation_simple_cache)
next
  case (Data data)
  then show ?thesis using assms hte_cache [of e data c] by auto
qed (simp_all add: assms sendNotification_cache cache_simps connect_fail_view
      connect_callback_view socketDrained_view restartConnection_view split: option.split)

lemma run_simple_cache:
  "\<not> enhanced (options c) \<Longrightarrow> cachedNotifications c = [] \<Longrightarrow>
   cachedNotifications (run e ops c) = []"
  unfolding run_def
  by (induction ops arbitrary: c) (simp_all add: perform_simple_cache perform_options)

lemma requeue_connecting:
  "socket (requeue k c) = socket c"
  "deferredConnection (requeue k c) = deferredConnection c"
  "connectContinuations (requeue k c) = connectContinuations c"
  by (induction k c rule: requeue.induct)
     (simp_all add: bufferNotification_def split: list.split)

lemma then_connecting:
  "attached (snd (sendNotification_then e n c)) = attached c"
  "deferredConnection (snd (sendNotification_then e n c)) = deferredConnection c"
  "connectContinuations (snd (sendNotification_then e n c)) = connectContinuations c"
  by (auto simp add: sendNotification_then_def Let_def attached_def bufferNotification_def
      raiseError_def cacheNotification_def socket_write_def
      split: option.split sum.split prod.split js_token.split)

lemma hte_connecting:
  "attached (snd (handleTransmissionError e data c)) = attached c"
  "deferredConnection (snd (handleTransmissionError e data c)) = deferredConnection c"
  "connectContinuations (snd (handleTransmissionError e data c)) = connectContinuations c"
  by (auto simp add: handleTransmissionError_def Let_def attached_def destroyConnection_def
      raiseError_def requeue_connecting
      split: list.split option.split sum.split prod.split)

lemma sendNotification_connecting:
  "connecting_consistent c \<Longrightarrow> connecting_consistent (snd (sendNotification n c))"
  by (auto simp add: connecting_consistent_def sendNotification_def connect_def attached_def
      split: option.split)

lemma runContinuation_connecting_view:
  "attached (snd (runContinuation e c)) = attached c"
  "(deferredConnection (snd (runContinuation e c)) = None) = (deferredConnection c = None)"
  "connectContinuations (snd (runContinuation e c)) = connectContinuations c"
proof -
  have "attached (snd (runContinuation e c)) = attached c
        \<and> (deferredConnection (snd (runContinuation e c)) = None) = (deferredConnection c = None)
        \<and> connectContinuations (snd (runContinuation e c)) = connectContinuations c"
  proof (cases "deferredConnection c")
    case None
    then show ?thesis by (simp add: runContinuation_def)
  next
    case (Some d)
    show ?thesis
    proof (cases "continuations d")
      case Nil
      with Some show ?thesis by (simp add: runContinuation_def)
    next
      case (Cons n rest)
      have a: "attached (c\<lparr>deferredConnection := x\<rparr>) = attached c" for x
        by (simp add: attached_def)
      show ?thesis
      proof (cases "promise d")
        case Pending
        with Some Cons show ?thesis by (simp add: runContinuation_def)
      next
        case Fulfilled
        show ?thesis
          unfolding runContinuation_Fulfilled [OF Some Cons Fulfilled]
          using Some by (simp add: then_connecting a)
      next
        case Rejected
        with Some Cons show ?thesis
          by (simp add: runContinuation_def sendNotification_fail_def a)
      qed
    qed
  qed
  then show "attached (snd (runContinuation e c)) = attached c"
    and "(deferredConnection (snd (runContinuation e c)) = None) = (deferredConnection c = None)"
    and "connectContinuations (snd (runContinuation e c)) = connectContinuations c"
    by simp_all
qed

lemma runContinuation_connecting:
  "connecting_consistent c \<Longrightarrow> connecting_consistent (snd (runContinuation e c))"
  by (simp add: connecting_consistent_def runContinuation_connecting_view)

lemma socketDrained_connecting:
  "connecting_consistent c \<Longrightarrow> connecting_consistent (socketDrained c)"
proof -
  assume a: "connecting_consistent c"
  have "connecting_consistent (c\<lparr>notificationBuffer := b\<rparr>)" for b
    using a by (simp add: connecting_consistent_def attached_def)
  then show ?thesis
    using a by (simp add: socketDrained_def sendNotification_connecting split: list.split)
qed

lemma restartConnection_connecting:
  "connecting_consistent c \<Longrightarrow> attached c \<Longrightarrow>
   connecting_consistent (snd (restartConnection c))"
  by (cases c)
     (auto simp add: connecting_consistent_def restartConnection_def connect_def attached_def
        Let_def split: option.split)

lemma connect_callback_connecting:
  assumes "connecting_consistent c" and "attached c"
  shows "connecting_consistent (snd (connect_callback c))"
proof -
  have t: "connecting_consistent (c\<lparr>connectionTimeout := t\<rparr>)" for t
    using assms(1) by (simp add: connecting_consistent_def attached_def)
  have d: "connecting_consistent (c'\<lparr>deferredConnection := Some d\<rparr>)"
    if "connecting_consistent c'" and "deferredConnection c' \<noteq> None" for c' d
    using that by (simp add: connecting_consistent_def attached_def)
  show ?thesis
    using assms t d socketDrained_connecting
    by (auto simp add: connect_callback_def Let_def split: option.split)
qed

lemma perform_connecting:
  assumes "connecting_consistent c"
  shows "connecting_consistent (perform e op c)"
proof (cases op)
  case (Submit n)
  then show ?thesis using assms by (simp add: sendNotification_connecting)
next
  case Turn
  then show ?thesis using assms by (simp add: runContinuation_connecting)
next
  case (SocketCreated s)
  then show ?thesis using assms
    by (auto simp add: connecting_consistent_def connect_then_def attached_def)
next
  case InitializeFailed
  then show ?thesis using assms
    by (auto simp add: connecting_consistent_def connect_fail_def attached_def
        split: option.split)
next
  case SecureConnect
  then show ?thesis using assms by (simp add: connect_callback_connecting)
next
  case (Data data)
  then show ?thesis using assms
    by (auto simp add: connecting_consistent_def hte_connecting)
next
  case Drain
  then show ?thesis using assms by (simp add: socketDrained_connecting)
next
  case SocketError
  then show ?thesis using assms
    by (auto simp add: connecting_consistent_def destroyConnection_def attached_def
        split: option.split)
next
  case End
  then show ?thesis using assms by (simp add: restartConnection_connecting)
next
  case Timeout
  then show ?thesis using assms
    by (auto simp add: connecting_consistent_def destroyConnection_def attached_def
        split: option.split)
next
  case (Transport occupancy w a)
  then show ?thesis using assms
    by (auto simp add: connecting_consistent_def attached_def split: option.split)
qed

lemma run_connecting:
  "connecting_consistent c \<Longrightarrow> connecting_consistent (run e ops c)"
  unfolding run_def
  by (induction ops arbitrary: c) (simp_all add: perform_connecting)

lemma teardown_has_connection_attempt:
  assumes "attached (run e ops (Connection opts))"
  shows "\<exists>d. deferredConnection (run e ops (Connection opts)) = Some d"
proof -
  have "connecting_consistent (Connection opts)"
    by (simp add: connecting_consistent_def Connection_def attached_def)
  then have "connecting_consistent (run e ops (Connection opts))"
    by (rule run_connecting)
  then show ?thesis using assms by (auto simp add: connecting_consistent_def)
qed

lemma reachable_currentId: "currentId (run e ops (Connection opts)) \<le> 0xffffffff"
  by (rule run_currentId_bound) (simp add: Connection_def)

lemma reachable_simple_cache:
  "\<not> enhanced opts \<Longrightarrow> cachedNotifications (run e ops (Connection opts)) = []"
  by (rule run_simple_cache) (simp_all add: Connection_def)

subsection \<open>Encoding a frame\<close>

lemma byte_of_mod: "(of_nat (x mod 256) :: byte) = of_nat x"
  by (simp add: word_of_nat_eq_iff take_bit_eq_mod)

lemma update4:
  assumes "4 \<le> length ys"
  shows "ys[0 := a, Suc 0 := b, 2 := c, 3 := d] = a # b # c # d # drop 4 ys"
proof -
  obtain y0 r0 where 0: "ys = y0 # r0" using assms by (cases ys) auto
  obtain y1 r1 where 1: "r0 = y1 # r1" using assms 0 by (cases r0) auto
  obtain y2 r2 where 2: "r1 = y2 # r2" using assms 0 1 by (cases r1) auto
  obtain y3 r3 where 3: "r2 = y3 # r3" using assms 0 1 2 by (cases r2) auto
  show ?thesis by (simp add: 0 1 2 3 numeral_2_eq_2 numeral_3_eq_3)
qed

lemma update2:
  assumes "2 \<le> length ys"
  shows "ys[0 := a, Suc 0 := b] = a # b # drop 2 ys"
proof -
  obtain y0 r0 where 0: "ys = y0 # r0" using assms by (cases ys) auto
  obtain y1 r1 where 1: "r0 = y1 # r1" using assms 0 by (cases r0) auto
  show ?thesis by (simp add: 0 1)
qed

lemma writeUInt32BE_at:
  assumes "length pre = off" and "4 \<le> length post" and "v \<le> 0xffffffff"
  shows "writeUInt32BE (pre @ post) v off = Inr (pre @ u32BE v @ drop 4 post)"
  using assms update4 [of post]
  by (simp add: writeUInt32BE_def list_update_append u32BE_def byte_of_mod)

lemma writeUInt16BE_at:
  assumes "length pre = off" and "2 \<le> length post" and "v \<le> 0xffff"
  shows "writeUInt16BE (pre @ post) v off = Inr (pre @ u16BE v @ drop 2 post)"
  using assms update2 [of post]
  by (simp add: writeUInt16BE_def list_update_append u16BE_def byte_of_mod)

lemma Buffer_copy_at:
  assumes "length pre = off" and "length source \<le> length post"
  shows "Buffer_copy source (pre @ post) off
         = Inr (length source, pre @ source @ drop (length source) post)"
  using assms by (auto simp add: Buffer_copy_def Let_def min_def)

lemma Buffer_write_at:
  assumes "length pre = off" and "length bytes \<le> length post"
  shows "Buffer_write (pre @ post) bytes off
         = Inr (length bytes, pre @ bytes @ drop (length bytes) post)"
  using assms by (auto simp add: Buffer_write_def Let_def min_def)

lemma length_new_Buffer: "length (new_Buffer e len) = len"
  by (simp add: new_Buffer_def)

lemma length_u16BE: "length (u16BE v) = 2"
  by (simp add: u16BE_def)

lemma length_u32BE: "length (u32BE v) = 4"
  by (simp add: u32BE_def)

lemma update_first: "xs \<noteq> [] \<Longrightarrow> xs[0 := a] = [a] @ drop 1 xs"
  by (cases xs) simp_all

lemma frameStart_enhanced:
  assumes "ident \<le> 0xffffffff"
  shows "frameStart e True ident x t m
         = Inr ([1] @ u32BE ident @ u32BE (unat x)
                  @ drop 9 (new_Buffer e (1 + 4 + 4 + 2 + t + 2 + m)), 9)"
proof -
  let ?J = "new_Buffer e (1 + 4 + 4 + 2 + t + 2 + m)"
  have len: "length ?J = 13 + t + m" by (simp add: length_new_Buffer)
  then have "?J \<noteq> []" by auto
  then have d1: "?J[0 := 1] = [1] @ drop 1 ?J" by (rule update_first)
  have w1: "writeUInt32BE ([1] @ drop 1 ?J) ident (0 + 1)
            = Inr (([1] @ u32BE ident) @ drop 4 (drop 1 ?J))"
    using assms len writeUInt32BE_at [of "[1]" 1 "drop 1 ?J" ident] by simp
  have x: "unat x \<le> 0xffffffff"
    using unsigned_less [of x, where 'a = nat] by simp
  have w2: "writeUInt32BE (([1] @ u32BE ident) @ drop 4 (drop 1 ?J)) (unat x) (0 + 1 + 4)
            = Inr ((([1] @ u32BE ident) @ u32BE (unat x)) @ drop 4 (drop 4 (drop 1 ?J)))"
    using x len
      writeUInt32BE_at [of "[1] @ u32BE ident" 5 "drop 4 (drop 1 ?J)" "unat x"]
    by (simp add: length_u32BE)
  have "frameStart e True ident x t m
        = Inr ((([1] @ u32BE ident) @ u32BE (unat x)) @ drop 4 (drop 4 (drop 1 ?J)),
               0 + 1 + 4 + 4)"
    by (simp only: frameStart_def Let_def if_True d1 w1 w2 sum.case)
  then show ?thesis by simp
qed

lemma frameStart_simple:
  "frameStart e False ident x t m
   = Inr ([0] @ drop 1 (new_Buffer e (1 + 2 + t + 2 + m)), 1)"
proof -
  let ?J = "new_Buffer e (1 + 2 + t + 2 + m)"
  have "length ?J = 5 + t + m" by (simp add: length_new_Buffer)
  then have "?J \<noteq> []" by auto
  then have d1: "?J[0 := 0] = [0] @ drop 1 ?J" by (rule update_first)
  have "frameStart e False ident x t m = Inr ([0] @ drop 1 ?J, 0 + 1)"
    by (simp only: frameStart_def Let_def if_False d1)
  then show ?thesis by simp
qed

lemma frameRest_at:
  assumes "length pre = p" and "length post = 2 + length tok + 2 + length msg"
    and "length tok \<le> 0xffff" and "length msg \<le> 0xffff"
  shows "frameRest (pre @ post) p tok msg
         = Inr (pre @ u16BE (length tok) @ tok @ u16BE (length msg) @ msg)"
proof -
  let ?a = "pre @ u16BE (length tok)"
  let ?b = "?a @ tok"
  let ?c = "?b @ u16BE (length msg)"
  let ?post1 = "drop 2 post"
  let ?post2 = "drop (length tok) ?post1"
  let ?post3 = "drop 2 ?post2"
  have w1: "writeUInt16BE (pre @ post) (length tok) p = Inr (?a @ ?post1)"
    using assms writeUInt16BE_at [of pre p post "length tok"] by simp
  have c: "Buffer_copy tok (?a @ ?post1) (p + 2) = Inr (length tok, ?b @ ?post2)"
    using assms Buffer_copy_at [of ?a "p + 2" tok ?post1]
    by (simp add: length_u16BE)
  have w2: "writeUInt16BE (?b @ ?post2) (length msg) (p + 2 + length tok) = Inr (?c @ ?post3)"
    using assms writeUInt16BE_at [of ?b "p + 2 + length tok" ?post2 "length msg"]
    by (simp add: length_u16BE)
  have w: "Buffer_write (?c @ ?post3) msg (p + 2 + length tok + 2) = Inr (length msg, ?c @ msg)"
    using assms Buffer_write_at [of ?c "p + 2 + length tok + 2" msg ?post3]
    by (simp add: length_u16BE)
  have "frameRest (pre @ post) p tok msg = Inr (?c @ msg)"
    by (simp only: frameRest_def Let_def w1 c w2 w sum.case prod.case)
  then show ?thesis by simp
qed

lemma length_enhanced_frame:
  "length (enhanced_frame ident x tok payload) = 13 + length tok + length payload"
  by (simp add: enhanced_frame_def length_u32BE length_u16BE)

lemma length_simple_frame:
  "length (simple_frame tok payload) = 5 + length tok + length payload"
  by (simp add: simple_frame_def length_u16BE)

lemma frame_enhanced:
  assumes "ident \<le> 0xffffffff" and "length tok \<le> 0xffff" and "length msg \<le> 0xffff"
  shows "\<exists>data p. frameStart e True ident x (length tok) (length msg) = Inr (data, p)
           \<and> frameRest data p tok msg = Inr (enhanced_frame ident x tok msg)"
proof -
  let ?pre = "[1] @ u32BE ident @ u32BE (unat x)"
  let ?post = "drop 9 (new_Buffer e (1 + 4 + 4 + 2 + length tok + 2 + length msg))"
  have s: "frameStart e True ident x (length tok) (length msg) = Inr (?pre @ ?post, 9)"
    using frameStart_enhanced [OF assms(1)] by simp
  have "frameRest (?pre @ ?post) 9 tok msg
        = Inr (?pre @ u16BE (length tok) @ tok @ u16BE (length msg) @ msg)"
    using assms(2,3)
    by (intro frameRest_at) (simp_all add: length_u32BE length_new_Buffer)
  then have "frameRest (?pre @ ?post) 9 tok msg = Inr (enhanced_frame ident x tok msg)"
    by (simp add: enhanced_frame_def)
  with s show ?thesis by blast
qed

lemma frame_simple:
  assumes "length tok \<le> 0xffff" and "length msg \<le> 0xffff"
  shows "\<exists>data p. frameStart e False ident x (length tok) (length msg) = Inr (data, p)
           \<and> frameRest data p tok msg = Inr (simple_frame tok msg)"
proof -
  let ?pre = "[0] :: byte list"
  let ?post = "drop 1 (new_Buffer e (1 + 2 + length tok + 2 + length msg))"
  have s: "frameStart e False ident x (length tok) (length msg) = Inr (?pre @ ?post, 1)"
    using frameStart_simple by simp
  have "frameRest (?pre @ ?post) 1 tok msg
        = Inr (?pre @ u16BE (length tok) @ tok @ u16BE (length msg) @ msg)"
    using assms by (intro frameRest_at) (simp_all add: length_new_Buffer)
  then have "frameRest (?pre @ ?post) 1 tok msg = Inr (simple_frame tok msg)"
    by (simp add: simple_frame_def)
  with s show ?thesis by blast
qed

lemma then_ready:
  assumes "socket c = Some s" and "bufferSize s = 0" and "writable s"
    and "device n = Some d" and "token d = Token_buffer tok" and "length tok \<le> 0xffff"
    and "length (stringify e n) \<le> 255" and "currentId c \<le> 0xffffffff"
  shows "enhanced (options c) \<Longrightarrow>
           sendNotification_then e n c =
             (Sent (n\<lparr>uid := Some (currentId c)\<rparr>)
                (enhanced_frame (currentId c) (expiry n) tok (stringify e n)),
              socket_write (enhanced_frame (currentId c) (expiry n) tok (stringify e n))
                (cacheNotification (n\<lparr>uid := Some (currentId c)\<rparr>)
                   (c\<lparr>currentId := (currentId c + 1) mod 2 ^ 32\<rparr>)))"
    and "\<not> enhanced (options c) \<Longrightarrow>
           sendNotification_then e n c =
             (Sent (n\<lparr>uid := Some (currentId c)\<rparr>) (simple_frame tok (stringify e n)),
              socket_write (simple_frame tok (stringify e n))
                (c\<lparr>currentId := (currentId c + 1) mod 2 ^ 32\<rparr>))"
proof -
  have m: "length (stringify e n) \<le> 0xffff" using assms(7) by simp
  have k: "4294967294 < currentId c \<Longrightarrow> (currentId c + 1) mod 2 ^ 32 = 0"
    "\<not> 4294967294 < currentId c \<Longrightarrow> (currentId c + 1) mod 2 ^ 32 = currentId c + 1"
    using assms(8) by (cases "currentId c = 4294967295"; simp)+
  {
    assume enh: "enhanced (options c)"
    obtain data p where
      "frameStart e True (currentId c) (expiry n) (length tok) (length (stringify e n))
         = Inr (data, p)"
      "frameRest data p tok (stringify e n)
         = Inr (enhanced_frame (currentId c) (expiry n) tok (stringify e n))"
      using frame_enhanced [OF assms(8) assms(6) m] by blast
    then show "sendNotification_then e n c =
             (Sent (n\<lparr>uid := Some (currentId c)\<rparr>)
                (enhanced_frame (currentId c) (expiry n) tok (stringify e n)),
              socket_write (enhanced_frame (currentId c) (expiry n) tok (stringify e n))
                (cacheNotification (n\<lparr>uid := Some (currentId c)\<rparr>)
                   (c\<lparr>currentId := (currentId c + 1) mod 2 ^ 32\<rparr>)))"
      using assms enh k by (simp add: sendNotification_then_def Let_def)
  }
  {
    assume simple: "\<not> enhanced (options c)"
    obtain data p where
      "frameStart e False (currentId c) (expiry n) (length tok) (length (stringify e n))
         = Inr (data, p)"
      "frameRest data p tok (stringify e n) = Inr (simple_frame tok (stringify e n))"
      using frame_simple [OF assms(6) m] by blast
    then show "sendNotification_then e n c =
             (Sent (n\<lparr>uid := Some (currentId c)\<rparr>) (simple_frame tok (stringify e n)),
              socket_write (simple_frame tok (stringify e n))
                (c\<lparr>currentId := (currentId c + 1) mod 2 ^ 32\<rparr>))"
      using assms simple k by (simp add: sendNotification_then_def Let_def)
  }
qed

lemma view_simps:
  "socket (cacheNotification m c) = socket c"
  "callbackCalls (cacheNotification m c) = callbackCalls c"
  "callbackCalls (socket_write d c) = callbackCalls c"
  "socket (socket_write d c) = map_option (\<lambda>s. s\<lparr>written := written s @ [d]\<rparr>) (socket c)"
  by (simp_all add: cacheNotification_def socket_write_def Let_def split: option.split)

lemma unat_byte: "unat (of_nat x :: byte) = x mod 256"
  by (simp add: unat_of_nat take_bit_eq_mod)

lemma be_value_u16BE:
  assumes "v \<le> 0xffff"
  shows "be_value (u16BE v) = v"
proof -
  have "v div 256 < 256" using assms by (simp add: less_mult_imp_div_less)
  then show ?thesis by (simp add: be_value_def u16BE_def unat_byte)
qed

lemma be_value_u32BE:
  assumes "v \<le> 0xffffffff"
  shows "be_value (u32BE v) = v"
proof -
  let ?a = "v div 256" and ?b = "v div 256 div 256" and ?c = "v div 256 div 256 div 256"
  have c: "?c < 256" using assms by (simp add: div_mult2_eq [symmetric] less_mult_imp_div_less)
  have "be_value (u32BE v) = ((?c mod 256 * 256 + ?b mod 256) * 256 + ?a mod 256) * 256 + v mod 256"
    by (simp add: be_value_def u32BE_def unat_byte div_mult2_eq [symmetric])
  also have "\<dots> = ((?c * 256 + ?b mod 256) * 256 + ?a mod 256) * 256 + v mod 256"
    using c by simp
  also have "\<dots> = (?b * 256 + ?a mod 256) * 256 + v mod 256"
    by (simp only: div_mult_mod_eq)
  also have "\<dots> = ?a * 256 + v mod 256"
    by (simp only: div_mult_mod_eq)
  also have "\<dots> = v"
    by (simp only: div_mult_mod_eq)
  finally show ?thesis .
qed

text \<open>
  C6. Let the stream accept data (empty socket buffer, writable), let the notification
  have a device with a token of at most 65535 bytes (what the 16-bit length field can hold) and a
  serialized payload of at most 255 bytes, and let \<open>currentId\<close> be at most \<open>2^32 - 1\<close>,
  as it is in every state a connection can reach.
  In the enhanced variant the send continuation writes exactly the frame: byte 1, the
  identifier and the expiry as 32-bit big-endian numbers, the token length as a 16-bit
  big-endian number, the token, the payload length as a 16-bit big-endian number, the
  payload; in all \<open>13 + |token| + |payload|\<close> bytes. In the simple variant it writes
  byte 0, the token length, the token, the payload length, the payload. No byte of the
  uninitialised buffer survives.
\<close>

theorem notification_frame_layout:
  assumes "socket c = Some s" and "bufferSize s = 0" and "writable s"
    and "device n = Some d" and "token d = Token_buffer tok" and "length tok \<le> 0xffff"
    and "length (stringify e n) \<le> 255" and "currentId c \<le> 0xffffffff"
  shows "(enhanced (options c) \<longrightarrow>
            fst (sendNotification_then e n c)
              = Sent (n\<lparr>uid := Some (currentId c)\<rparr>)
                  (enhanced_frame (currentId c) (expiry n) tok (stringify e n))
            \<and> socket (snd (sendNotification_then e n c))
              = Some (s\<lparr>written := written s
                    @ [enhanced_frame (currentId c) (expiry n) tok (stringify e n)]\<rparr>)
            \<and> length (enhanced_frame (currentId c) (expiry n) tok (stringify e n))
              = 13 + length tok + length (stringify e n))
       \<and> (\<not> enhanced (options c) \<longrightarrow>
            fst (sendNotification_then e n c)
              = Sent (n\<lparr>uid := Some (currentId c)\<rparr>) (simple_frame tok (stringify e n))
            \<and> socket (snd (sendNotification_then e n c))
              = Some (s\<lparr>written := written s @ [simple_frame tok (stringify e n)]\<rparr>)
            \<and> length (simple_frame tok (stringify e n))
              = 5 + length tok + length (stringify e n))"
  using then_ready [OF assms] assms(1)
  by (simp add: view_simps length_enhanced_frame length_simple_frame)

theorem notification_frame_layout_witness:
  "socket example_connection = Some example_socket
   \<and> bufferSize example_socket = 0 \<and> writable example_socket
   \<and> device (example_notification 9) = Some \<lparr>token = Token_buffer [1, 2]\<rparr>
   \<and> length (stringify example_env (example_notification 9)) \<le> 255
   \<and> enhanced (options example_connection) \<and> \<not> enhanced (options simple_connection)
   \<and> fst (sendNotification_then example_env (example_notification 9) example_connection)
       = Sent (example_notification 0)
           [1, 0, 0, 0, 0, 0, 0, 1, 2, 0, 2, 1, 2, 0, 3, 3, 4, 5]
   \<and> fst (sendNotification_then example_env (example_notification 9) simple_connection)
       = Sent (example_notification 0) [0, 0, 2, 1, 2, 0, 3, 3, 4, 5]"
  using notification_frame_layout
      [of example_connection example_socket "example_notification 9"
          "\<lparr>token = Token_buffer [1, 2]\<rparr>" "[1, 2]" example_env]
    notification_frame_layout
      [of simple_connection example_socket "example_notification 9"
          "\<lparr>token = Token_buffer [1, 2]\<rparr>" "[1, 2]" example_env]
  by (simp add: example_connection_def simple_connection_def example_socket_def
        example_notification_def example_env_def Connection_def default_options_def
        enhanced_frame_def simple_frame_def u32BE_def u16BE_def)

subsection \<open>Validation and backpressure\<close>

text \<open>
  What the continuation does with a notification that has no device, or whose token is
  \<^verbatim>\<open>null\<close>, once it is past the backpressure gate: it throws. Without a device nothing
  has happened yet; with a \<^verbatim>\<open>null\<close> token the payload was checked and the identifier
  taken. Either way no error code is raised.
\<close>

lemma then_no_device:
  assumes "socket c = Some s" and "bufferSize s = 0" and "writable s"
    and "device n = None"
  shows "sendNotification_then e n c = (Threw TypeError, c)"
  using assms by (simp add: sendNotification_then_def)

lemma then_null_token:
  assumes "socket c = Some s" and "bufferSize s = 0" and "writable s"
    and "device n = Some d" and "token d = Token_null"
    and "length (stringify e n) \<le> 255"
  shows "sendNotification_then e n c
         = (Threw_numbered TypeError,
            if currentId c + 1 > 0xffffffff then c\<lparr>currentId := 0\<rparr>
            else c\<lparr>currentId := currentId c + 1\<rparr>)"
  using assms by (simp add: sendNotification_then_def Let_def)

text \<open>
  The turn of the promise library in which such a continuation runs: the exception goes
  to the \<^verbatim>\<open>fail\<close> continuation, which throws in its turn, so the error callback hears
  nothing of the notification.
\<close>

lemma runContinuation_no_device:
  assumes "deferredConnection c = Some d" and "promise d = Fulfilled"
    and "continuations d = n # rest"
    and "socket c = Some s" and "bufferSize s = 0" and "writable s"
    and "device n = None"
  shows "runContinuation e c
         = (Some (Threw TypeError), c\<lparr>deferredConnection := Some (d\<lparr>continuations := rest\<rparr>)\<rparr>)"
  using assms
  by (simp add: runContinuation_def sendNotification_then_def sendNotification_fail_def)

lemma runContinuation_null_token:
  assumes "deferredConnection c = Some d" and "promise d = Fulfilled"
    and "continuations d = n # rest"
    and "socket c = Some s" and "bufferSize s = 0" and "writable s"
    and "device n = Some dev" and "token dev = Token_null"
    and "length (stringify e n) \<le> 255"
  shows "fst (runContinuation e c) = Some (Threw_numbered TypeError)
         \<and> callbackCalls (snd (runContinuation e c)) = callbackCalls c
         \<and> cachedNotifications (snd (runContinuation e c)) = cachedNotifications c
         \<and> notificationBuffer (snd (runContinuation e c)) = notificationBuffer c
         \<and> currentId (snd (runContinuation e c))
             = (if currentId c + 1 > 0xffffffff then 0 else currentId c + 1)"
  using assms
  by (simp add: runContinuation_def sendNotification_then_def sendNotification_fail_def Let_def)

text \<open>
  C3, as the code has it. Let the notification have a device with a token (a byte
  sequence of at most 65535 bytes, what the 16-bit length field can hold), let
  \<open>currentId\<close> be at most \<open>2^32 - 1\<close>, and let the stream accept data (empty socket
  buffer, writable) when the send continuation runs. If the serialized payload has
  exactly 255 bytes, the continuation gives the notification the identifier
  \<open>currentId\<close>, writes exactly the frame of that notification to the stream (the
  enhanced or the simple layout, with that identifier, the expiry, the token and the
  255 payload bytes), caches the notification in the enhanced variant, and does not
  call the error callback. If the payload has 256 bytes or more, the continuation raises
  \<^verbatim>\<open>Errors['invalidPayloadSize']\<close> with the notification (one call of the error
  callback, when one is configured) and changes nothing else. Whatever the state of the
  stream, a notification of 256 bytes or more is never numbered, encoded, cached or
  written.
\<close>

theorem payload_size_boundary:
  assumes "socket c = Some s" and "device n = Some d" and "token d = Token_buffer tok"
  shows "(bufferSize s = 0 \<and> writable s \<and> length (stringify e n) = 255
            \<and> length tok \<le> 0xffff \<and> currentId c \<le> 0xffffffff \<and> enhanced (options c) \<longrightarrow>
            sendNotification_then e n c
              = (Sent (n\<lparr>uid := Some (currentId c)\<rparr>)
                   (enhanced_frame (currentId c) (expiry n) tok (stringify e n)),
                 socket_write (enhanced_frame (currentId c) (expiry n) tok (stringify e n))
                   (cacheNotification (n\<lparr>uid := Some (currentId c)\<rparr>)
                      (c\<lparr>currentId := (currentId c + 1) mod 2 ^ 32\<rparr>)))
            \<and> socket (snd (sendNotification_then e n c))
                = Some (s\<lparr>written := written s
                      @ [enhanced_frame (currentId c) (expiry n) tok (stringify e n)]\<rparr>)
            \<and> length (enhanced_frame (currentId c) (expiry n) tok (stringify e n))
                = 13 + length tok + 255
            \<and> callbackCalls (snd (sendNotification_then e n c)) = callbackCalls c)
       \<and> (bufferSize s = 0 \<and> writable s \<and> length (stringify e n) = 255
            \<and> length tok \<le> 0xffff \<and> currentId c \<le> 0xffffffff \<and> \<not> enhanced (options c) \<longrightarrow>
            sendNotification_then e n c
              = (Sent (n\<lparr>uid := Some (currentId c)\<rparr>) (simple_frame tok (stringify e n)),
                 socket_write (simple_frame tok (stringify e n))
                   (c\<lparr>currentId := (currentId c + 1) mod 2 ^ 32\<rparr>))
            \<and> socket (snd (sendNotification_then e n c))
                = Some (s\<lparr>written := written s @ [simple_frame tok (stringify e n)]\<rparr>)
            \<and> length (simple_frame tok (stringify e n)) = 5 + length tok + 255
            \<and> callbackCalls (snd (sendNotification_then e n c)) = callbackCalls c)
       \<and> (bufferSize s = 0 \<and> writable s \<and> 256 \<le> length (stringify e n) \<longrightarrow>
            sendNotification_then e n c
              = (Refused (Errors_invalidPayloadSize e),
                 raiseError (Errors_invalidPayloadSize e) (Some n) c)
            \<and> callbackCalls (snd (sendNotification_then e n c))
                = (if errorCallback (options c)
                   then callbackCalls c @ [(Errors_invalidPayloadSize e, Some n)]
                   else callbackCalls c)
            \<and> notificationBuffer (snd (sendNotification_then e n c)) = notificationBuffer c)
       \<and> (256 \<le> length (stringify e n) \<longrightarrow>
            \<not> is_sent (fst (sendNotification_then e n c))
            \<and> cachedNotifications (snd (sendNotification_then e n c)) = cachedNotifications c
            \<and> currentId (snd (sendNotification_then e n c)) = currentId c
            \<and> socket (snd (sendNotification_then e n c)) = socket c)"
proof (intro conjI impI)
  assume h: "bufferSize s = 0 \<and> writable s \<and> length (stringify e n) = 255
             \<and> length tok \<le> 0xffff \<and> currentId c \<le> 0xffffffff \<and> enhanced (options c)"
  then have r: "socket c = Some s" "bufferSize s = 0" "writable s" "device n = Some d"
    "token d = Token_buffer tok" "length tok \<le> 0xffff" "length (stringify e n) \<le> 255"
    "currentId c \<le> 0xffffffff"
    using assms by simp_all
  from h have enh: "enhanced (options c)" by simp
  show sent: "sendNotification_then e n c
      = (Sent (n\<lparr>uid := Some (currentId c)\<rparr>)
           (enhanced_frame (currentId c) (expiry n) tok (stringify e n)),
         socket_write (enhanced_frame (currentId c) (expiry n) tok (stringify e n))
           (cacheNotification (n\<lparr>uid := Some (currentId c)\<rparr>)
              (c\<lparr>currentId := (currentId c + 1) mod 2 ^ 32\<rparr>)))"
    using then_ready(1) [OF r enh] .
  show "socket (snd (sendNotification_then e n c))
          = Some (s\<lparr>written := written s
                @ [enhanced_frame (currentId c) (expiry n) tok (stringify e n)]\<rparr>)"
    using assms(1) by (simp add: sent view_simps)
  show "length (enhanced_frame (currentId c) (expiry n) tok (stringify e n))
          = 13 + length tok + 255"
    using h by (simp add: length_enhanced_frame)
  show "callbackCalls (snd (sendNotification_then e n c)) = callbackCalls c"
    by (simp add: sent view_simps)
next
  assume h: "bufferSize s = 0 \<and> writable s \<and> length (stringify e n) = 255
             \<and> length tok \<le> 0xffff \<and> currentId c \<le> 0xffffffff \<and> \<not> enhanced (options c)"
  then have r: "socket c = Some s" "bufferSize s = 0" "writable s" "device n = Some d"
    "token d = Token_buffer tok" "length tok \<le> 0xffff" "length (stringify e n) \<le> 255"
    "currentId c \<le> 0xffffffff"
    using assms by simp_all
  from h have simple: "\<not> enhanced (options c)" by simp
  show sent: "sendNotification_then e n c
      = (Sent (n\<lparr>uid := Some (currentId c)\<rparr>) (simple_frame tok (stringify e n)),
         socket_write (simple_frame tok (stringify e n))
           (c\<lparr>currentId := (currentId c + 1) mod 2 ^ 32\<rparr>))"
    using then_ready(2) [OF r simple] .
  show "socket (snd (sendNotification_then e n c))
          = Some (s\<lparr>written := written s @ [simple_frame tok (stringify e n)]\<rparr>)"
    using assms(1) by (simp add: sent view_simps)
  show "length (simple_frame tok (stringify e n)) = 5 + length tok + 255"
    using h by (simp add: length_simple_frame)
  show "callbackCalls (snd (sendNotification_then e n c)) = callbackCalls c"
    by (simp add: sent view_simps)
next
  assume big: "bufferSize s = 0 \<and> writable s \<and> 256 \<le> length (stringify e n)"
  then show refused: "sendNotification_then e n c
      = (Refused (Errors_invalidPayloadSize e), raiseError (Errors_invalidPayloadSize e) (Some n) c)"
    using assms by (simp add: sendNotification_then_def Let_def)
  show "callbackCalls (snd (sendNotification_then e n c))
          = (if errorCallback (options c)
             then callbackCalls c @ [(Errors_invalidPayloadSize e, Some n)]
             else callbackCalls c)"
    by (simp add: refused raiseError_def)
  show "notificationBuffer (snd (sendNotification_then e n c)) = notificationBuffer c"
    by (simp add: refused raiseError_def)
next
  assume big: "256 \<le> length (stringify e n)"
  then have "sendNotification_then e n c
               = (Refused (Errors_invalidPayloadSize e),
                  raiseError (Errors_invalidPayloadSize e) (Some n) c)
             \<or> sendNotification_then e n c = (Buffered, bufferNotification n c)"
    using assms by (simp add: sendNotification_then_def Let_def)
  then show "\<not> is_sent (fst (sendNotification_then e n c))"
    and "cachedNotifications (snd (sendNotification_then e n c)) = cachedNotifications c"
    and "currentId (snd (sendNotification_then e n c)) = currentId c"
    and "socket (snd (sendNotification_then e n c)) = socket c"
    by (auto simp add: is_sent_def raiseError_def bufferNotification_def)
qed

theorem payload_size_boundary_witness:
  "socket example_connection = Some example_socket
   \<and> bufferSize example_socket = 0 \<and> writable example_socket
   \<and> device (payload_notification 255) = Some \<lparr>token = Token_buffer [1, 2]\<rparr>
   \<and> length (stringify example_env (payload_notification 255)) = 255
   \<and> 256 \<le> length (stringify example_env (payload_notification 256))
   \<and> enhanced (options example_connection) \<and> \<not> enhanced (options simple_connection)
   \<and> fst (sendNotification_then example_env (payload_notification 255) example_connection)
       = Sent ((payload_notification 255)\<lparr>uid := Some 0\<rparr>)
           ([1, 0, 0, 0, 0, 0, 0, 0, 0, 0, 2, 1, 2, 0, 255] @ replicate 255 65)
   \<and> socket (snd (sendNotification_then example_env (payload_notification 255)
                    example_connection))
       = Some (example_socket
           \<lparr>written := [[1, 0, 0, 0, 0, 0, 0, 0, 0, 0, 2, 1, 2, 0, 255] @ replicate 255 65]\<rparr>)
   \<and> cachedNotifications (snd (sendNotification_then example_env (payload_notification 255)
                                 example_connection))
       = [(payload_notification 255)\<lparr>uid := Some 0\<rparr>]
   \<and> callbackCalls (snd (sendNotification_then example_env (payload_notification 255)
                            example_connection)) = []
   \<and> fst (sendNotification_then example_env (payload_notification 255) simple_connection)
       = Sent ((payload_notification 255)\<lparr>uid := Some 0\<rparr>)
           ([0, 0, 2, 1, 2, 0, 255] @ replicate 255 65)
   \<and> sendNotification_then example_env (payload_notification 256) example_connection
       = (Refused 7, example_connection\<lparr>callbackCalls := [(7, Some (payload_notification 256))]\<rparr>)"
  using payload_size_boundary
      [of example_connection example_socket "payload_notification 255"
          "\<lparr>token = Token_buffer [1, 2]\<rparr>" "[1, 2]" example_env]
    payload_size_boundary
      [of simple_connection example_socket "payload_notification 255"
          "\<lparr>token = Token_buffer [1, 2]\<rparr>" "[1, 2]" example_env]
    payload_size_boundary
      [of example_connection example_socket "payload_notification 256"
          "\<lparr>token = Token_buffer [1, 2]\<rparr>" "[1, 2]" example_env]
  by (simp add: example_connection_def simple_connection_def example_socket_def
        payload_notification_def example_env_def Connection_def default_options_def
        raiseError_def enhanced_frame_def simple_frame_def u32BE_def u16BE_def
        cacheNotification_def socket_write_def)

text \<open>
  C3 as stated does not hold when the stream is backpressured: the notification with a
  token and a payload of exactly 255 bytes is not encoded and not written but appended to
  the outbound buffer, and the one with 256 bytes is appended too, with no error.
\<close>

theorem payload_size_boundary_counterexample:
  "device (payload_notification 255) = Some \<lparr>token = Token_buffer [1, 2]\<rparr>
   \<and> length (stringify example_env (payload_notification 255)) = 255
   \<and> sendNotification_then example_env (payload_notification 255) busy_connection
       = (Buffered, busy_connection\<lparr>notificationBuffer := [payload_notification 255]\<rparr>)
   \<and> socket (snd (sendNotification_then example_env (payload_notification 255) busy_connection))
       = Some (example_socket\<lparr>bufferSize := 1024\<rparr>)
   \<and> written (example_socket\<lparr>bufferSize := 1024\<rparr>) = []
   \<and> length (stringify example_env (payload_notification 256)) = 256
   \<and> errorCallback (options busy_connection)
   \<and> sendNotification_then example_env (payload_notification 256) busy_connection
       = (Buffered, busy_connection\<lparr>notificationBuffer := [payload_notification 256]\<rparr>)
   \<and> callbackCalls
         (snd (sendNotification_then example_env (payload_notification 256) busy_connection))
       = []"
  by (simp add: busy_connection_def example_connection_def example_socket_def
        payload_notification_def example_env_def Connection_def default_options_def
        sendNotification_then_def bufferNotification_def)

text \<open>
  C8, as the code has it. Let the notification have a device whose token is
  \<^verbatim>\<open>undefined\<close>, and let the stream accept data (empty socket buffer, writable) when the
  send continuation runs. The continuation raises \<^verbatim>\<open>Errors['missingDeviceToken']\<close> with
  the notification (one call of the error callback, when one is configured) and changes
  nothing else: cache, outbound buffer, \<open>currentId\<close> and stream are as before.
\<close>

theorem missing_token_refused:
  assumes "socket c = Some s" and "bufferSize s = 0" and "writable s"
    and "device n = Some d" and "token d = Token_undefined"
  shows "sendNotification_then e n c
           = (Refused (Errors_missingDeviceToken e),
              raiseError (Errors_missingDeviceToken e) (Some n) c)
         \<and> callbackCalls (snd (sendNotification_then e n c))
             = (if errorCallback (options c)
                then callbackCalls c @ [(Errors_missingDeviceToken e, Some n)]
                else callbackCalls c)
         \<and> cachedNotifications (snd (sendNotification_then e n c)) = cachedNotifications c
         \<and> notificationBuffer (snd (sendNotification_then e n c)) = notificationBuffer c
         \<and> currentId (snd (sendNotification_then e n c)) = currentId c
         \<and> socket (snd (sendNotification_then e n c)) = socket c"
  using assms by (simp add: sendNotification_then_def Let_def raiseError_def)

theorem missing_token_refused_witness:
  "socket example_connection = Some example_socket
   \<and> bufferSize example_socket = 0 \<and> writable example_socket
   \<and> device tokenless_notification = Some \<lparr>token = Token_undefined\<rparr>
   \<and> sendNotification_then example_env tokenless_notification example_connection
       = (Refused 2, example_connection\<lparr>callbackCalls := [(2, Some tokenless_notification)]\<rparr>)"
  using missing_token_refused
      [of example_connection example_socket tokenless_notification
          "\<lparr>token = Token_undefined\<rparr>" example_env]
  by (simp add: example_connection_def example_socket_def tokenless_notification_def
        example_env_def Connection_def default_options_def raiseError_def)

text \<open>
  C8 as stated does not hold when the stream is backpressured: the notification whose
  token is \<^verbatim>\<open>undefined\<close> enters the outbound buffer and no error is reported.
\<close>

theorem missing_token_buffered_counterexample:
  "device tokenless_notification = Some \<lparr>token = Token_undefined\<rparr>
   \<and> notificationBuffer busy_connection = []
   \<and> sendNotification_then example_env tokenless_notification busy_connection
       = (Buffered, busy_connection\<lparr>notificationBuffer := [tokenless_notification]\<rparr>)
   \<and> notificationBuffer
         (snd (sendNotification_then example_env tokenless_notification busy_connection))
       \<noteq> notificationBuffer busy_connection
   \<and> callbackCalls
         (snd (sendNotification_then example_env tokenless_notification busy_connection)) = []"
  by (simp add: busy_connection_def example_connection_def example_socket_def
        tokenless_notification_def Connection_def default_options_def
        sendNotification_then_def bufferNotification_def)

text \<open>
  C10. While the stream is backpressured (its socket buffer is not empty, or it is not
  writable), the continuation appends the notification to the outbound buffer and does
  nothing else, whatever the notification: no token check, no size check, no call of the
  error callback. The check comes with the resend: once the runtime reports the stream
  empty and writable, the \<^verbatim>\<open>drain\<close> event takes the notification from the buffer and
  submits it again, and the continuation of that submission reports the missing token
  (a device whose token is \<^verbatim>\<open>undefined\<close>) or the oversized payload (any other token).
\<close>

theorem backpressure_buffers_before_validation:
  assumes "socket c = Some s" and "bufferSize s \<noteq> 0 \<or> \<not> writable s"
  shows "sendNotification_then e n c
           = (Buffered, c\<lparr>notificationBuffer := notificationBuffer c @ [n]\<rparr>)
         \<and> (listening s \<and> notificationBuffer c = []
              \<and> deferredConnection c = Some \<lparr>promise = Fulfilled, continuations = []\<rparr> \<longrightarrow>
             (device n = Some d \<and> token d = Token_undefined \<longrightarrow>
                run e [Transport 0 True a, Drain, Turn] (snd (sendNotification_then e n c))
                  = raiseError (Errors_missingDeviceToken e) (Some n)
                      (c\<lparr>socket := Some (s\<lparr>bufferSize := 0, writable := True, authorized := a\<rparr>)\<rparr>))
           \<and> (device n = Some d \<and> token d \<noteq> Token_undefined
                 \<and> 255 < length (stringify e n) \<longrightarrow>
                run e [Transport 0 True a, Drain, Turn] (snd (sendNotification_then e n c))
                  = raiseError (Errors_invalidPayloadSize e) (Some n)
                      (c\<lparr>socket := Some (s\<lparr>bufferSize := 0, writable := True, authorized := a\<rparr>)\<rparr>)))"
proof -
  have b: "sendNotification_then e n c
           = (Buffered, c\<lparr>notificationBuffer := notificationBuffer c @ [n]\<rparr>)"
    using assms by (auto simp add: sendNotification_then_def bufferNotification_def)
  show ?thesis
    unfolding b
    using assms(1)
    by (cases c)
       (auto simp add: run_def attached_def socketDrained_def sendNotification_def connect_def
          runContinuation_def sendNotification_then_def sendNotification_fail_def Let_def
          raiseError_def)
qed

theorem backpressure_buffers_before_validation_witness:
  "socket busy_connection = Some (example_socket\<lparr>bufferSize := 1024\<rparr>)
   \<and> bufferSize (example_socket\<lparr>bufferSize := 1024\<rparr>) \<noteq> 0
   \<and> device tokenless_notification = Some \<lparr>token = Token_undefined\<rparr>
   \<and> sendNotification_then example_env tokenless_notification busy_connection
       = (Buffered, busy_connection\<lparr>notificationBuffer := [tokenless_notification]\<rparr>)
   \<and> run example_env [Transport 0 True True, Drain, Turn]
         (snd (sendNotification_then example_env tokenless_notification busy_connection))
       = example_connection\<lparr>callbackCalls := [(2, Some tokenless_notification)]\<rparr>
   \<and> 255 < length (stringify example_env (payload_notification 256))
   \<and> run example_env [Transport 0 True True, Drain, Turn]
         (snd (sendNotification_then example_env (payload_notification 256) busy_connection))
       = example_connection\<lparr>callbackCalls := [(7, Some (payload_notification 256))]\<rparr>"
  using backpressure_buffers_before_validation
      [of busy_connection "example_socket\<lparr>bufferSize := 1024\<rparr>" example_env
          tokenless_notification "\<lparr>token = Token_undefined\<rparr>" True]
    backpressure_buffers_before_validation
      [of busy_connection "example_socket\<lparr>bufferSize := 1024\<rparr>" example_env
          "payload_notification 256" "\<lparr>token = Token_buffer [1, 2]\<rparr>" True]
  by (auto simp add: busy_connection_def example_connection_def example_socket_def
        tokenless_notification_def payload_notification_def example_env_def
        Connection_def default_options_def raiseError_def)

subsection \<open>Teardown\<close>

lemma restartConnection_eq:
  assumes "deferredConnection c = Some d"
  shows "restartConnection c
           = (Normal, if notificationBuffer c \<noteq> [] then snd (connect (disconnected c))
                      else disconnected c)"
  using assms
  by (cases c)
     (simp add: restartConnection_def disconnected_def connect_def Let_def
        split: option.split)

text \<open>
  C9. Let a connection attempt be on record (\<open>deferredConnection\<close> is set, as it is in
  every reachable state with a stream attached to emit \<^verbatim>\<open>end\<close> or \<^verbatim>\<open>close\<close>). Then
  \<open>restartConnection\<close> returns normally; afterwards the stream handle is released, no
  idle timer is armed and the outbound buffer is as before; if the buffer is non-empty
  a new connection attempt is under way (\<^verbatim>\<open>connect\<close> ran: a fresh pending promise and
  one more continuation waiting to open the stream), and if it is empty there is no
  connection attempt and no new continuation. This is what the events \<^verbatim>\<open>end\<close> and
  \<^verbatim>\<open>close\<close> of an attached stream do.
\<close>

theorem restartConnection_reconnects_when_buffered:
  assumes "deferredConnection c = Some d"
  shows "restartConnection c
           = (Normal, if notificationBuffer c \<noteq> [] then snd (connect (disconnected c))
                      else disconnected c)
         \<and> socket (snd (restartConnection c)) = None
         \<and> connectionTimeout (snd (restartConnection c)) \<noteq> Some True
         \<and> notificationBuffer (snd (restartConnection c)) = notificationBuffer c
         \<and> (notificationBuffer c \<noteq> [] \<longrightarrow>
               deferredConnection (snd (restartConnection c))
                 = Some \<lparr>promise = Pending, continuations = []\<rparr>
               \<and> connectContinuations (snd (restartConnection c))
                 = connectContinuations c + 1)
         \<and> (notificationBuffer c = [] \<longrightarrow>
               deferredConnection (snd (restartConnection c)) = None
               \<and> connectContinuations (snd (restartConnection c)) = connectContinuations c)
         \<and> (attached c \<longrightarrow> perform e End c = snd (restartConnection c))"
  using restartConnection_eq [OF assms]
  by (simp add: disconnected_def connect_def split: option.split)

theorem restartConnection_reconnects_when_buffered_witness:
  "deferredConnection example_connection = Some \<lparr>promise = Fulfilled, continuations = []\<rparr>
   \<and> notificationBuffer example_connection = []
   \<and> restartConnection (example_connection\<lparr>connectionTimeout := Some True\<rparr>)
       = (Normal, (Connection (default_options\<lparr>errorCallback := True\<rparr>))
                    \<lparr>connectionTimeout := Some False\<rparr>)
   \<and> restartConnection
         (example_connection\<lparr>notificationBuffer := [example_notification 8],
                              connectionTimeout := Some True\<rparr>)
       = (Normal, (Connection (default_options\<lparr>errorCallback := True\<rparr>))
                    \<lparr>deferredConnection := Some \<lparr>promise = Pending, continuations = []\<rparr>,
                     notificationBuffer := [example_notification 8],
                     connectionTimeout := Some False,
                     connectContinuations := 1\<rparr>)"
  using restartConnection_reconnects_when_buffered
      [of "example_connection\<lparr>connectionTimeout := Some True\<rparr>"
          "\<lparr>promise = Fulfilled, continuations = []\<rparr>" example_env]
    restartConnection_reconnects_when_buffered
      [of "example_connection\<lparr>notificationBuffer := [example_notification 8],
                                connectionTimeout := Some True\<rparr>"
          "\<lparr>promise = Fulfilled, continuations = []\<rparr>" example_env]
  by (simp add: example_connection_def Connection_def default_options_def disconnected_def
        connect_def)

subsection \<open>What the caller gets back\<close>

text \<open>
  C7, as the code has it. For every notification and every state, \<open>sendNotification\<close>
  returns \<^verbatim>\<open>undefined\<close>, although \<^verbatim>\<open>connect\<close> hands it a promise: it attaches its
  continuation to the connection promise and touches neither the stream, the cache, the
  outbound buffer nor the error callback.
\<close>

theorem sendNotification_returns_undefined:
  "fst (sendNotification n c) = Undefined
   \<and> fst (connect c) = Promise (case deferredConnection c of Some d \<Rightarrow> promise d | None \<Rightarrow> Pending)
   \<and> deferredConnection (snd (sendNotification n c))
       = Some (case deferredConnection c of
                 Some d \<Rightarrow> d\<lparr>continuations := continuations d @ [n]\<rparr>
               | None \<Rightarrow> \<lparr>promise = Pending, continuations = [n]\<rparr>)
   \<and> socket (snd (sendNotification n c)) = socket c
   \<and> cachedNotifications (snd (sendNotification n c)) = cachedNotifications c
   \<and> notificationBuffer (snd (sendNotification n c)) = notificationBuffer c
   \<and> callbackCalls (snd (sendNotification n c)) = callbackCalls c"
  by (simp add: sendNotification_def connect_def split: option.split)

text \<open>
  C7 as stated does not hold: the value returned for a submitted notification is
  \<^verbatim>\<open>undefined\<close>, not a promise.
\<close>

theorem sendNotification_returns_promise_counterexample:
  "fst (sendNotification (example_notification 0) example_connection) = Undefined
   \<and> fst (sendNotification (example_notification 0) example_connection) \<noteq> Promise Pending
   \<and> fst (sendNotification (example_notification 0) example_connection) \<noteq> Promise Fulfilled
   \<and> fst (sendNotification (example_notification 0) example_connection) \<noteq> Promise Rejected"
  by (simp add: sendNotification_def connect_def example_connection_def Connection_def)

end
